theory Spec2Isabelle
  imports Main "HOL-Library.Sublist"
begin

section \<open>Python values used by the two tool providers\<close>

text \<open>
  The servers \<^verbatim>\<open>dirsearch-mcp-server.py\<close> and \<^verbatim>\<open>nmap-mcp-server.py\<close> turn the
  keyword parameters of a tool call into a list of command-line tokens and hand the list
  to \<^verbatim>\<open>subprocess.run\<close>. A parameter annotated \<^verbatim>\<open>str | None\<close> or
  \<^verbatim>\<open>int | None\<close> is an \<open>option\<close>; a parameter with a default value is a
  \<open>param\<close>, which the callee resolves against its default as Python does at call time.
  A list element is an \<open>arg\<close>: a string, or Python's \<^verbatim>\<open>None\<close> where the source
  puts an optional parameter into the list unchecked.
\<close>

datatype 'a param = Default | Given 'a

fun param_or :: "'a \<Rightarrow> 'a param \<Rightarrow> 'a" where
  "param_or d Default = d"
| "param_or d (Given v) = v"

datatype arg = S string | NoneArg

fun opt_arg :: "string option \<Rightarrow> arg" where
  "opt_arg None = NoneArg"
| "opt_arg (Some s) = S s"

datatype py_exception =
    ValueError string
  | RuntimeError string
  | FileNotFoundError string
  | IsADirectoryError string
  | NotADirectoryError string
  | UnicodeDecodeError string
  | OSError string
  | TypeError string

text \<open>
  \<^verbatim>\<open>str(n)\<close> for an integer: decimal digits, with a minus sign for a negative one
  (the interpreter's limit on the number of digits it converts is not modelled).
\<close>

definition digit_char :: "nat \<Rightarrow> char" where
  "digit_char d = ''0123456789'' ! (d mod 10)"

fun str_nat :: "nat \<Rightarrow> string" where
  "str_nat n = (if n < 10 then [digit_char n] else str_nat (n div 10) @ [digit_char (n mod 10)])"

declare str_nat.simps [simp del]

definition str_int :: "int \<Rightarrow> string" where
  "str_int i = (if i < 0 then CHR ''-'' # str_nat (nat (- i)) else str_nat (nat i))"

text \<open>\<^verbatim>\<open>str(v)\<close> and \<^verbatim>\<open>f"{v}"\<close> for a value that may be \<^verbatim>\<open>None\<close>.\<close>

fun str_opt_int :: "int option \<Rightarrow> string" where
  "str_opt_int None = ''None''"
| "str_opt_int (Some i) = str_int i"

fun format_opt_str :: "string option \<Rightarrow> string" where
  "format_opt_str None = ''None''"
| "format_opt_str (Some s) = s"

text \<open>Truth value of \<^verbatim>\<open>if threads:\<close> and \<^verbatim>\<open>if extensions:\<close>.\<close>

fun truthy_int :: "int option \<Rightarrow> bool" where
  "truthy_int None = False"
| "truthy_int (Some i) = (i \<noteq> 0)"

fun truthy_str :: "string option \<Rightarrow> bool" where
  "truthy_str None = False"
| "truthy_str (Some s) = (s \<noteq> [])"

section \<open>Reading text\<close>

text \<open>
  A file holds bytes. Reading it in text mode with \<^verbatim>\<open>encoding="utf-8"\<close> decodes the
  bytes strictly, raising \<^verbatim>\<open>UnicodeDecodeError\<close> unless they are well-formed UTF-8
  (no stray or missing continuation byte, no overlong form, no surrogate, nothing above
  U+10FFFF), and then translates every \<^verbatim>\<open>\r\n\<close> and every remaining \<^verbatim>\<open>\r\<close> into
  \<^verbatim>\<open>\n\<close> (universal newlines). A Python string is kept here as its UTF-8 bytes, so
  decoding well-formed bytes changes nothing but the line ends.
\<close>

definition byte :: "char \<Rightarrow> nat" where
  "byte c = of_char c"

definition between :: "nat \<Rightarrow> nat \<Rightarrow> char \<Rightarrow> bool" where
  "between lo hi c = (lo \<le> byte c \<and> byte c \<le> hi)"

fun valid_utf8 :: "string \<Rightarrow> bool" where
  "valid_utf8 [] = True"
| "valid_utf8 (c # cs) =
     (if byte c < 0x80 then valid_utf8 cs
      else if between 0xC2 0xDF c then
        (case cs of
           c1 # r \<Rightarrow> between 0x80 0xBF c1 \<and> valid_utf8 r
         | _ \<Rightarrow> False)
      else if between 0xE0 0xEF c then
        (case cs of
           c1 # c2 # r \<Rightarrow>
             between (if byte c = 0xE0 then 0xA0 else 0x80)
                     (if byte c = 0xED then 0x9F else 0xBF) c1
             \<and> between 0x80 0xBF c2 \<and> valid_utf8 r
         | _ \<Rightarrow> False)
      else if between 0xF0 0xF4 c then
        (case cs of
           c1 # c2 # c3 # r \<Rightarrow>
             between (if byte c = 0xF0 then 0x90 else 0x80)
                     (if byte c = 0xF4 then 0x8F else 0xBF) c1
             \<and> between 0x80 0xBF c2 \<and> between 0x80 0xBF c3 \<and> valid_utf8 r
         | _ \<Rightarrow> False)
      else False)"

fun universal_newlines :: "string \<Rightarrow> string" where
  "universal_newlines [] = []"
| "universal_newlines [c] = [if c = CHR 0x0D then CHR 0x0A else c]"
| "universal_newlines (c # d # cs) =
     (if c = CHR 0x0D \<and> d = CHR 0x0A then CHR 0x0A # universal_newlines cs
      else if c = CHR 0x0D then CHR 0x0A # universal_newlines (d # cs)
      else c # universal_newlines (d # cs))"

definition decode_text :: "string \<Rightarrow> py_exception + string" where
  "decode_text bytes =
     (if valid_utf8 bytes then Inr (universal_newlines bytes)
      else Inl (UnicodeDecodeError ''utf-8''))"

section \<open>\<^verbatim>\<open>shlex.split\<close>\<close>

text \<open>
  Both \<^verbatim>\<open>custom_scan\<close> tools call \<^verbatim>\<open>shlex.split(extra_args)\<close> of the Python
  standard library: a \<^verbatim>\<open>shlex\<close> lexer in POSIX mode with
  \<^verbatim>\<open>whitespace_split = True\<close> and no comment characters, iterated until it reports
  end of input. The lexer reads one character at a time and keeps \<^verbatim>\<open>self.state\<close>
  (a blank in whitespace, \<^verbatim>\<open>'a'\<close> in a word, the opening quote inside quotes, the
  backslash after an escape, \<^verbatim>\<open>None\<close> past the end), the token built so far, whether
  a quote was seen in it, and the state to return to after an escape.

  \<open>lex\<close> is the loop of \<^verbatim>\<open>read_token\<close> together with the iteration of
  \<^verbatim>\<open>list(lex)\<close>: where \<^verbatim>\<open>read_token\<close> breaks out of its loop and returns a
  token, \<open>lex\<close> puts that token in front of what the following calls return; where it
  returns \<^verbatim>\<open>None\<close> the iteration stops. With \<^verbatim>\<open>whitespace_split\<close> set, the
  branch for word characters and the final branch of the whitespace state have the same
  body, and the punctuation and comment sets are empty, so those tests are not repeated.
\<close>

definition whitespace :: string where
  "whitespace = [CHR '' '', CHR 0x09, CHR 0x0D, CHR 0x0A]"

definition quotes :: string where
  "quotes = [CHR 0x27, CHR 0x22]"

definition escape :: string where
  "escape = [CHR 0x5C]"

definition escapedquotes :: string where
  "escapedquotes = [CHR 0x22]"

datatype lex_state = St_eof | St_space | St_word | St_quote char | St_escape char

fun cons_token :: "string \<Rightarrow> py_exception + string list \<Rightarrow> py_exception + string list" where
  "cons_token t (Inl e) = Inl e"
| "cons_token t (Inr ts) = Inr (t # ts)"

fun in_quotes_state :: "lex_state \<Rightarrow> char \<Rightarrow> bool" where
  "in_quotes_state (St_quote q) c = (c \<noteq> q)"
| "in_quotes_state _ c = False"

fun lex :: "lex_state \<Rightarrow> string \<Rightarrow> bool \<Rightarrow> lex_state \<Rightarrow> string \<Rightarrow> py_exception + string list" where
  "lex St_eof tok quoted esc cs = Inr []"
| "lex St_space tok quoted esc [] =
     (if \<not> quoted \<and> tok = [] then Inr [] else Inr [tok])"
| "lex St_space tok quoted esc (c # cs) =
     (if c \<in> set whitespace then
        (if tok \<noteq> [] \<or> quoted then
           (if \<not> quoted \<and> tok = [] then Inr []
            else cons_token tok (lex St_space [] False St_space cs))
         else lex St_space tok quoted esc cs)
      else if c \<in> set escape then lex (St_escape c) tok quoted St_word cs
      else if c \<in> set quotes then lex (St_quote c) tok quoted esc cs
      else lex St_word [c] quoted esc cs)"
| "lex (St_quote q) tok quoted esc [] = Inl (ValueError ''No closing quotation'')"
| "lex (St_quote q) tok quoted esc (c # cs) =
     (if c = q then lex St_word tok True esc cs
      else if c \<in> set escape \<and> q \<in> set escapedquotes then
        lex (St_escape c) tok True (St_quote q) cs
      else lex (St_quote q) (tok @ [c]) True esc cs)"
| "lex (St_escape e) tok quoted esc [] = Inl (ValueError ''No escaped character'')"
| "lex (St_escape e) tok quoted esc (c # cs) =
     lex esc ((if in_quotes_state esc c \<and> c \<noteq> e then tok @ [e] else tok) @ [c]) quoted esc cs"
| "lex St_word tok quoted esc [] =
     (if \<not> quoted \<and> tok = [] then Inr [] else Inr [tok])"
| "lex St_word tok quoted esc (c # cs) =
     (if c \<in> set whitespace then
        (if tok \<noteq> [] \<or> quoted then
           (if \<not> quoted \<and> tok = [] then Inr []
            else cons_token tok (lex St_space [] False St_space cs))
         else lex St_space tok quoted esc cs)
      else if c \<in> set quotes then lex (St_quote c) tok quoted esc cs
      else if c \<in> set escape then lex (St_escape c) tok quoted St_word cs
      else lex St_word (tok @ [c]) quoted esc cs)"

definition shlex_split :: "string \<Rightarrow> py_exception + string list" where
  "shlex_split s = lex St_space [] False St_space s"

text \<open>
  The quoting rules of a POSIX shell, as a scan of their own that follows the words of
  the specification rather than the lexer: outside quotes a backslash escapes the next
  character and a quote opens a quoted part; a single-quoted part ends at the next single
  quote; a double-quoted part ends at the next double quote that no backslash precedes.
  A string has an unterminated quote when the scan ends inside a quoted part, and is well
  formed when the scan ends outside quotes with no escape pending.
\<close>

datatype quoting = Unquoted | In_single | In_double | Escaped | Escaped_in_double

fun quote_step :: "quoting \<Rightarrow> char \<Rightarrow> quoting" where
  "quote_step Unquoted c =
     (if c = CHR 0x5C then Escaped
      else if c = CHR 0x27 then In_single
      else if c = CHR 0x22 then In_double
      else Unquoted)"
| "quote_step In_single c = (if c = CHR 0x27 then Unquoted else In_single)"
| "quote_step In_double c =
     (if c = CHR 0x22 then Unquoted
      else if c = CHR 0x5C then Escaped_in_double
      else In_double)"
| "quote_step Escaped c = Unquoted"
| "quote_step Escaped_in_double c = In_double"

definition quote_scan :: "string \<Rightarrow> quoting" where
  "quote_scan s = foldl quote_step Unquoted s"

definition unterminated_quote :: "string \<Rightarrow> bool" where
  "unterminated_quote s = (quote_scan s \<in> {In_single, In_double, Escaped_in_double})"

definition well_formed :: "string \<Rightarrow> bool" where
  "well_formed s = (quote_scan s = Unquoted)"

text \<open>
  The exception the lexer raises at the end of input, by the place where the scan ends;
  and the place of the scan that a state of the lexer stands for.
\<close>

fun scan_error :: "quoting \<Rightarrow> py_exception option" where
  "scan_error Unquoted = None"
| "scan_error In_single = Some (ValueError ''No closing quotation'')"
| "scan_error In_double = Some (ValueError ''No closing quotation'')"
| "scan_error Escaped = Some (ValueError ''No escaped character'')"
| "scan_error Escaped_in_double = Some (ValueError ''No escaped character'')"

fun quoting_of :: "lex_state \<Rightarrow> lex_state \<Rightarrow> quoting option" where
  "quoting_of St_space esc = Some Unquoted"
| "quoting_of St_word esc = Some Unquoted"
| "quoting_of (St_quote q) esc =
     (if q = CHR 0x27 then Some In_single else if q = CHR 0x22 then Some In_double else None)"
| "quoting_of (St_escape e) St_word = (if e = CHR 0x5C then Some Escaped else None)"
| "quoting_of (St_escape e) (St_quote q) =
     (if e = CHR 0x5C \<and> q = CHR 0x22 then Some Escaped_in_double else None)"
| "quoting_of _ _ = None"

text \<open>The character a state still holds back: the backslash of a pending escape.\<close>

fun pending :: "lex_state \<Rightarrow> string" where
  "pending (St_escape e) = [e]"
| "pending _ = []"

text \<open>
  A result of the lexer keeps the order of the input when, if it is a token list, the
  tokens one after the other are the token in hand followed by a subsequence of the
  remaining input.
\<close>

definition keeps_order :: "string \<Rightarrow> string \<Rightarrow> py_exception + string list \<Rightarrow> bool" where
  "keeps_order tok rest r =
     (case r of Inl e \<Rightarrow> True
              | Inr ts \<Rightarrow> \<exists>x. concat ts = tok @ x \<and> subseq x rest)"

section \<open>The host: external processes and the file system\<close>

text \<open>
  What the servers do beyond computing a list is done by the host: \<^verbatim>\<open>subprocess.run\<close>
  starts the external binary and waits for it, \<^verbatim>\<open>tempfile\<close> creates and removes a
  directory, \<^verbatim>\<open>open(...).read()\<close> reads a text file. The host is a parameter of the
  model. \<open>exec\<close> is one run of \<^verbatim>\<open>subprocess.run(argv, capture_output=True,
  text=True, check=False)\<close>: it may raise (the binary is missing, an element of the list is
  not a string, the output cannot be decoded) or return a completed process with the
  captured text, and it may change any file. \<open>mkdtemp\<close> picks the name of a new
  temporary directory. \<open>remove_fails\<close> tells whether the host stops the removal of a
  directory tree (an entry that cannot be deleted even after its permissions are reset, a
  directory in use), and then with which exception and what it leaves behind. A
  \<open>world\<close> is the file system together with the log of every argument vector handed to
  \<^verbatim>\<open>subprocess.run\<close> so far. Access rights of files are not part of the file system.
\<close>

record completed_process =
  returncode :: int
  stdout :: string
  stderr :: string

record filesystem =
  files :: "string \<rightharpoonup> string"
  dirs :: "string set"

record world =
  fsys :: filesystem
  run_log :: "arg list list"

record host =
  exec :: "arg list \<Rightarrow> filesystem \<Rightarrow> (py_exception + completed_process) \<times> filesystem"
  mkdtemp :: "filesystem \<Rightarrow> py_exception + string"
  remove_fails :: "string \<Rightarrow> filesystem \<Rightarrow> (py_exception \<times> filesystem) option"

definition subprocess_run ::
  "host \<Rightarrow> arg list \<Rightarrow> world \<Rightarrow> (py_exception + completed_process) \<times> world" where
  "subprocess_run h argv w =
     (case exec h argv (fsys w) of
        (r, fs) \<Rightarrow> (r, \<lparr>fsys = fs, run_log = run_log w @ [argv]\<rparr>))"

text \<open>\<^verbatim>\<open>os.path.join\<close> of two POSIX paths.\<close>

definition os_path_join :: "string \<Rightarrow> string \<Rightarrow> string" where
  "os_path_join a b =
     (if prefix ''/'' b then b
      else if a = [] \<or> suffix ''/'' a then a @ b
      else a @ ''/'' @ b)"

text \<open>A path is inside a directory when it is the directory or lies below it.\<close>

definition inside :: "string \<Rightarrow> string \<Rightarrow> bool" where
  "inside d p = (p = d \<or> prefix (os_path_join d []) p)"

definition path_exists :: "filesystem \<Rightarrow> string \<Rightarrow> bool" where
  "path_exists fs p = (files fs p \<noteq> None \<or> p \<in> dirs fs)"

definition rmtree :: "string \<Rightarrow> filesystem \<Rightarrow> filesystem" where
  "rmtree d fs =
     \<lparr>files = (\<lambda>p. if inside d p then None else files fs p),
      dirs = Set.filter (\<lambda>p. \<not> inside d p) (dirs fs)\<rparr>"

text \<open>
  \<^verbatim>\<open>with tempfile.TemporaryDirectory() as tmp:\<close> creates the directory on entry and
  calls \<^verbatim>\<open>cleanup()\<close> when the block is left, by return or by exception. The cleanup
  runs \<^verbatim>\<open>shutil.rmtree\<close> with \<^verbatim>\<open>ignore_cleanup_errors=False\<close>: a path that is
  missing is passed over, a path that has become a regular file raises
  \<^verbatim>\<open>NotADirectoryError\<close> and stays, any other failure is the host's; an exception of
  the cleanup leaves the \<^verbatim>\<open>with\<close> statement in place of the result or exception of
  the block. Where nothing fails the directory is removed with everything inside it
  (below a missing directory a file system holds nothing, so there this changes nothing).
\<close>

definition tempdir_enter :: "host \<Rightarrow> world \<Rightarrow> (py_exception + string) \<times> world" where
  "tempdir_enter h w =
     (case mkdtemp h (fsys w) of
        Inl e \<Rightarrow> (Inl e, w)
      | Inr tmp \<Rightarrow> (Inr tmp, w\<lparr>fsys := (fsys w)\<lparr>dirs := insert tmp (dirs (fsys w))\<rparr>\<rparr>))"

definition tempdir_cleanup ::
  "host \<Rightarrow> string \<Rightarrow> filesystem \<Rightarrow> py_exception option \<times> filesystem" where
  "tempdir_cleanup h tmp fs =
     (if tmp \<notin> dirs fs \<and> files fs tmp \<noteq> None then (Some (NotADirectoryError tmp), fs)
      else case remove_fails h tmp fs of
             Some (e, left) \<Rightarrow> (Some e, left)
           | None \<Rightarrow> (None, rmtree tmp fs))"

definition tempdir_exit ::
  "host \<Rightarrow> string \<Rightarrow> (py_exception + string) \<times> world \<Rightarrow> (py_exception + string) \<times> world" where
  "tempdir_exit h tmp block =
     (case block of
        (result, w) \<Rightarrow>
          (case tempdir_cleanup h tmp (fsys w) of
             (None, fs) \<Rightarrow> (result, w\<lparr>fsys := fs\<rparr>)
           | (Some e, fs) \<Rightarrow> (Inl e, w\<lparr>fsys := fs\<rparr>)))"

text \<open>\<^verbatim>\<open>open(path, "r", encoding="utf-8")\<close> followed by \<^verbatim>\<open>fh.read()\<close>.\<close>

definition read_text :: "string \<Rightarrow> world \<Rightarrow> py_exception + string" where
  "read_text path w =
     (if path \<in> dirs (fsys w) then Inl (IsADirectoryError path)
      else case files (fsys w) path of
             None \<Rightarrow> Inl (FileNotFoundError path)
           | Some bytes \<Rightarrow> decode_text bytes)"

section \<open>The dirsearch provider\<close>

definition run_dirsearch :: "host \<Rightarrow> arg list \<Rightarrow> world \<Rightarrow> (py_exception + string) \<times> world" where
  "run_dirsearch h args w =
     (case subprocess_run h (S ''dirsearch'' # args) w of
        (Inl e, w') \<Rightarrow> (Inl e, w')
      | (Inr result, w') \<Rightarrow>
          if returncode result \<noteq> 0 then
            (Inl (RuntimeError
               (''dirsearch exited with '' @ str_int (returncode result) @ '':'' @ [CHR 0x0A]
                @ (if stderr result \<noteq> [] then stderr result else stdout result))), w')
          else (Inr (stdout result), w'))"

definition base_args :: "int option param \<Rightarrow> bool param \<Rightarrow> arg list" where
  "base_args threads include_errors =
     [S ''-q'']
     @ (if truthy_int (param_or (Some 20) threads)
        then [S ''-t'', S (str_opt_int (param_or (Some 20) threads))] else [])
     @ (if \<not> param_or False include_errors
        then [S ''--include-status'', S ''200-399''] else [])"

definition common_extensions :: "string option" where
  "common_extensions = Some ''php,asp,aspx,jsp,html,js,txt''"

definition quick_scan_args ::
  "string \<Rightarrow> string option param \<Rightarrow> int option param \<Rightarrow> bool param \<Rightarrow> arg list" where
  "quick_scan_args url extensions threads show_errors =
     base_args (Given (param_or (Some 20) threads)) (Given (param_or False show_errors))
     @ [S ''-u'', S url, S ''-e'', opt_arg (param_or common_extensions extensions)]"

definition quick_scan ::
  "host \<Rightarrow> string \<Rightarrow> string option param \<Rightarrow> int option param \<Rightarrow> bool param
   \<Rightarrow> world \<Rightarrow> (py_exception + string) \<times> world" where
  "quick_scan h url extensions threads show_errors w =
     run_dirsearch h (quick_scan_args url extensions threads show_errors) w"

definition recursive_scan_args ::
  "string \<Rightarrow> string option param \<Rightarrow> int option param \<Rightarrow> int option param \<Rightarrow> bool param
   \<Rightarrow> arg list" where
  "recursive_scan_args url extensions max_depth threads show_errors =
     (base_args (Given (param_or (Some 20) threads)) (Given (param_or False show_errors))
      @ [S ''-u'', S url, S ''-e'', opt_arg (param_or common_extensions extensions), S ''-r''])
     @ (case param_or (Some 3) max_depth of
          Some d \<Rightarrow> [S ''-R'', S (str_int d)]
        | None \<Rightarrow> [])"

definition recursive_scan ::
  "host \<Rightarrow> string \<Rightarrow> string option param \<Rightarrow> int option param \<Rightarrow> int option param
   \<Rightarrow> bool param \<Rightarrow> world \<Rightarrow> (py_exception + string) \<times> world" where
  "recursive_scan h url extensions max_depth threads show_errors w =
     run_dirsearch h (recursive_scan_args url extensions max_depth threads show_errors) w"

definition deep_recursive_scan_args ::
  "string \<Rightarrow> string option param \<Rightarrow> int option param \<Rightarrow> bool param \<Rightarrow> arg list" where
  "deep_recursive_scan_args url extensions threads show_errors =
     base_args (Given (param_or (Some 40) threads)) (Given (param_or False show_errors))
     @ [S ''-u'', S url, S ''-e'', opt_arg (param_or common_extensions extensions),
        S ''--deep-recursive'']"

definition deep_recursive_scan ::
  "host \<Rightarrow> string \<Rightarrow> string option param \<Rightarrow> int option param \<Rightarrow> bool param
   \<Rightarrow> world \<Rightarrow> (py_exception + string) \<times> world" where
  "deep_recursive_scan h url extensions threads show_errors w =
     run_dirsearch h (deep_recursive_scan_args url extensions threads show_errors) w"

definition subdirs_scan_args ::
  "string \<Rightarrow> string \<Rightarrow> string option param \<Rightarrow> int option param \<Rightarrow> bool param \<Rightarrow> arg list" where
  "subdirs_scan_args url subdirs extensions threads show_errors =
     base_args (Given (param_or (Some 20) threads)) (Given (param_or False show_errors))
     @ [S ''-u'', S url, S ''-e'', opt_arg (param_or common_extensions extensions),
        S ''--subdirs'', S subdirs]"

definition subdirs_scan ::
  "host \<Rightarrow> string \<Rightarrow> string \<Rightarrow> string option param \<Rightarrow> int option param \<Rightarrow> bool param
   \<Rightarrow> world \<Rightarrow> (py_exception + string) \<times> world" where
  "subdirs_scan h url subdirs extensions threads show_errors w =
     run_dirsearch h (subdirs_scan_args url subdirs extensions threads show_errors) w"

definition wordlist_scan_args ::
  "string \<Rightarrow> string \<Rightarrow> string option param \<Rightarrow> int option param \<Rightarrow> bool param \<Rightarrow> arg list" where
  "wordlist_scan_args url wordlists extensions threads show_errors =
     (base_args (Given (param_or (Some 20) threads)) (Given (param_or False show_errors))
      @ [S ''-u'', S url, S ''-w'', S wordlists])
     @ (if truthy_str (param_or (Some []) extensions)
        then [S ''-e'', opt_arg (param_or (Some []) extensions)] else [])"

definition wordlist_scan ::
  "host \<Rightarrow> string \<Rightarrow> string \<Rightarrow> string option param \<Rightarrow> int option param \<Rightarrow> bool param
   \<Rightarrow> world \<Rightarrow> (py_exception + string) \<times> world" where
  "wordlist_scan h url wordlists extensions threads show_errors w =
     run_dirsearch h (wordlist_scan_args url wordlists extensions threads show_errors) w"

definition json_report_scan_args ::
  "string \<Rightarrow> string \<Rightarrow> string option param \<Rightarrow> int option param \<Rightarrow> bool param \<Rightarrow> arg list" where
  "json_report_scan_args report_path url extensions threads show_errors =
     base_args (Given (param_or (Some 20) threads)) (Given (param_or False show_errors))
     @ [S ''-u'', S url, S ''-e'', opt_arg (param_or common_extensions extensions),
        S ''--format'', S ''json'', S ''-o'', S report_path]"

text \<open>The block of the \<^verbatim>\<open>with\<close> statement: run the scan, then read the report.\<close>

definition json_report_block ::
  "host \<Rightarrow> string \<Rightarrow> string \<Rightarrow> string option param \<Rightarrow> int option param \<Rightarrow> bool param
   \<Rightarrow> world \<Rightarrow> (py_exception + string) \<times> world" where
  "json_report_block h report_path url extensions threads show_errors w =
     (case run_dirsearch h
             (json_report_scan_args report_path url extensions threads show_errors) w of
        (Inl e, w') \<Rightarrow> (Inl e, w')
      | (Inr out, w') \<Rightarrow> (read_text report_path w', w'))"

definition json_report_scan ::
  "host \<Rightarrow> string \<Rightarrow> string option param \<Rightarrow> int option param \<Rightarrow> bool param
   \<Rightarrow> world \<Rightarrow> (py_exception + string) \<times> world" where
  "json_report_scan h url extensions threads show_errors w =
     (case tempdir_enter h w of
        (Inl e, w0) \<Rightarrow> (Inl e, w0)
      | (Inr tmp, w1) \<Rightarrow>
          tempdir_exit h tmp
            (json_report_block h (os_path_join tmp ''report.json'')
               url extensions threads show_errors w1))"

definition proxy_scan_args ::
  "string \<Rightarrow> string \<Rightarrow> string option param \<Rightarrow> int option param \<Rightarrow> bool param \<Rightarrow> arg list" where
  "proxy_scan_args url proxy extensions threads show_errors =
     base_args (Given (param_or (Some 20) threads)) (Given (param_or False show_errors))
     @ [S ''-u'', S url, S ''-e'', opt_arg (param_or common_extensions extensions),
        S ''--proxy'', S proxy]"

definition proxy_scan ::
  "host \<Rightarrow> string \<Rightarrow> string \<Rightarrow> string option param \<Rightarrow> int option param \<Rightarrow> bool param
   \<Rightarrow> world \<Rightarrow> (py_exception + string) \<times> world" where
  "proxy_scan h url proxy extensions threads show_errors w =
     run_dirsearch h (proxy_scan_args url proxy extensions threads show_errors) w"

definition authenticated_scan_args ::
  "string \<Rightarrow> string \<Rightarrow> string param \<Rightarrow> string option param \<Rightarrow> int option param \<Rightarrow> arg list" where
  "authenticated_scan_args url auth_cred auth_type extensions threads =
     base_args (Given (param_or (Some 20) threads)) (Given True)
     @ [S ''-u'', S url, S ''-e'', opt_arg (param_or common_extensions extensions),
        S ''--auth'', S auth_cred, S ''--auth-type'', S (param_or ''basic'' auth_type)]"

definition authenticated_scan ::
  "host \<Rightarrow> string \<Rightarrow> string \<Rightarrow> string param \<Rightarrow> string option param \<Rightarrow> int option param
   \<Rightarrow> world \<Rightarrow> (py_exception + string) \<times> world" where
  "authenticated_scan h url auth_cred auth_type extensions threads w =
     run_dirsearch h (authenticated_scan_args url auth_cred auth_type extensions threads) w"

text \<open>
  In \<^verbatim>\<open>custom_scan\<close> the argument of the invoker is evaluated first, so an exception of
  \<^verbatim>\<open>shlex.split\<close> leaves the function before the invoker is called.
\<close>

definition dirsearch_custom_scan_args :: "string \<Rightarrow> string \<Rightarrow> py_exception + arg list" where
  "dirsearch_custom_scan_args url extra_args =
     (case shlex_split extra_args of
        Inl e \<Rightarrow> Inl e
      | Inr tokens \<Rightarrow> Inr (base_args Default (Given True) @ [S ''-u'', S url] @ map S tokens))"

definition dirsearch_custom_scan ::
  "host \<Rightarrow> string \<Rightarrow> string \<Rightarrow> world \<Rightarrow> (py_exception + string) \<times> world" where
  "dirsearch_custom_scan h url extra_args w =
     (case dirsearch_custom_scan_args url extra_args of
        Inl e \<Rightarrow> (Inl e, w)
      | Inr args \<Rightarrow> run_dirsearch h args w)"

section \<open>The nmap provider\<close>

definition run_nmap :: "host \<Rightarrow> arg list \<Rightarrow> world \<Rightarrow> (py_exception + string) \<times> world" where
  "run_nmap h args w =
     (case subprocess_run h (S ''nmap'' # args) w of
        (Inl e, w') \<Rightarrow> (Inl e, w')
      | (Inr result, w') \<Rightarrow>
          if returncode result \<noteq> 0 then
            (Inl (RuntimeError
               (''Nmap exited with '' @ str_int (returncode result) @ '':'' @ [CHR 0x0A]
                @ (if stderr result \<noteq> [] then stderr result else stdout result))), w')
          else (Inr (stdout result), w'))"

definition add_pn :: "arg list \<Rightarrow> arg list" where
  "add_pn args = S ''-Pn'' # args"

definition full_port_scan_args :: "string \<Rightarrow> string option param \<Rightarrow> arg list" where
  "full_port_scan_args target timing =
     add_pn [S ''-sS'', S ''-p'', S ''1-65535'',
             S (''-'' @ format_opt_str (param_or (Some ''T4'') timing)), S target]"

definition full_port_scan ::
  "host \<Rightarrow> string \<Rightarrow> string option param \<Rightarrow> world \<Rightarrow> (py_exception + string) \<times> world" where
  "full_port_scan h target timing w = run_nmap h (full_port_scan_args target timing) w"

definition stealth_syn_scan_args :: "string \<Rightarrow> string param \<Rightarrow> string option param \<Rightarrow> arg list" where
  "stealth_syn_scan_args target ports timing =
     add_pn [S ''-sS'', S ''-p'', S (param_or ''1-1000'' ports),
             S (''-'' @ format_opt_str (param_or (Some ''T3'') timing)), S target]"

definition stealth_syn_scan ::
  "host \<Rightarrow> string \<Rightarrow> string param \<Rightarrow> string option param \<Rightarrow> world
   \<Rightarrow> (py_exception + string) \<times> world" where
  "stealth_syn_scan h target ports timing w =
     run_nmap h (stealth_syn_scan_args target ports timing) w"

definition tcp_connect_scan_args :: "string \<Rightarrow> string param \<Rightarrow> string option param \<Rightarrow> arg list" where
  "tcp_connect_scan_args target ports timing =
     add_pn [S ''-sT'', S ''-p'', S (param_or ''1-1024'' ports),
             S (''-'' @ format_opt_str (param_or (Some ''T3'') timing)), S target]"

definition tcp_connect_scan ::
  "host \<Rightarrow> string \<Rightarrow> string param \<Rightarrow> string option param \<Rightarrow> world
   \<Rightarrow> (py_exception + string) \<times> world" where
  "tcp_connect_scan h target ports timing w =
     run_nmap h (tcp_connect_scan_args target ports timing) w"

definition udp_scan_args :: "string \<Rightarrow> string param \<Rightarrow> string option param \<Rightarrow> arg list" where
  "udp_scan_args target ports timing =
     add_pn [S ''-sU'', S ''-p'', S (param_or ''1-1000'' ports),
             S (''-'' @ format_opt_str (param_or (Some ''T4'') timing)), S target]"

definition udp_scan ::
  "host \<Rightarrow> string \<Rightarrow> string param \<Rightarrow> string option param \<Rightarrow> world
   \<Rightarrow> (py_exception + string) \<times> world" where
  "udp_scan h target ports timing w = run_nmap h (udp_scan_args target ports timing) w"

text \<open>\<^verbatim>\<open>args.insert(0, "-F")\<close> puts the flag in front of the list.\<close>

definition os_detection_scan_args :: "string \<Rightarrow> bool param \<Rightarrow> arg list" where
  "os_detection_scan_args target quick =
     add_pn (if param_or False quick then S ''-F'' # [S ''-O'', S target]
             else [S ''-O'', S target])"

definition os_detection_scan ::
  "host \<Rightarrow> string \<Rightarrow> bool param \<Rightarrow> world \<Rightarrow> (py_exception + string) \<times> world" where
  "os_detection_scan h target quick w = run_nmap h (os_detection_scan_args target quick) w"

definition ping_sweep_args :: "string \<Rightarrow> arg list" where
  "ping_sweep_args network = [S ''-sn'', S network]"

definition ping_sweep :: "host \<Rightarrow> string \<Rightarrow> world \<Rightarrow> (py_exception + string) \<times> world" where
  "ping_sweep h network w = run_nmap h (ping_sweep_args network) w"

definition aggressive_scan_args :: "string \<Rightarrow> arg list" where
  "aggressive_scan_args target = add_pn [S ''-A'', S target]"

definition aggressive_scan :: "host \<Rightarrow> string \<Rightarrow> world \<Rightarrow> (py_exception + string) \<times> world" where
  "aggressive_scan h target w = run_nmap h (aggressive_scan_args target) w"

definition nmap_custom_scan_args :: "string \<Rightarrow> string \<Rightarrow> py_exception + arg list" where
  "nmap_custom_scan_args target extra_args =
     (case shlex_split extra_args of
        Inl e \<Rightarrow> Inl e
      | Inr tokens \<Rightarrow> Inr (add_pn (map S tokens @ [S target])))"

definition nmap_custom_scan ::
  "host \<Rightarrow> string \<Rightarrow> string \<Rightarrow> world \<Rightarrow> (py_exception + string) \<times> world" where
  "nmap_custom_scan h target extra_args w =
     (case nmap_custom_scan_args target extra_args of
        Inl e \<Rightarrow> (Inl e, w)
      | Inr args \<Rightarrow> run_nmap h args w)"

section \<open>What a call hands to the host\<close>

text \<open>The argument vectors passed to \<^verbatim>\<open>subprocess.run\<close> between two worlds.\<close>

definition new_runs :: "world \<Rightarrow> world \<Rightarrow> arg list list" where
  "new_runs w w' = drop (length (run_log w)) (run_log w')"

text \<open>The default status-code filter and the concurrency flag, as they stand in a list.\<close>

definition status_filter :: "arg list" where
  "status_filter = [S ''--include-status'', S ''200-399'']"


section \<open>Concrete hosts\<close>

text \<open>
  Hosts and worlds on which the tools can be run by evaluation: a host whose every process
  run completes with a given result and touches no file, a host whose process writes one
  file before it completes, a host that cannot start the binary, a host whose process
  puts a regular file in the place of a directory, and a world with no file and no
  process run so far. None of them stops the removal of a directory tree.
\<close>

definition quiet_host :: "completed_process \<Rightarrow> string \<Rightarrow> host" where
  "quiet_host r tmp =
     \<lparr>exec = (\<lambda>argv fs. (Inr r, fs)), mkdtemp = (\<lambda>fs. Inr tmp),
      remove_fails = (\<lambda>d fs. None)\<rparr>"

definition writing_host :: "completed_process \<Rightarrow> string \<Rightarrow> string \<Rightarrow> string \<Rightarrow> host" where
  "writing_host r path bytes tmp =
     \<lparr>exec = (\<lambda>argv fs. (Inr r, fs\<lparr>files := (files fs)(path \<mapsto> bytes)\<rparr>)),
      mkdtemp = (\<lambda>fs. Inr tmp), remove_fails = (\<lambda>d fs. None)\<rparr>"

definition missing_binary_host :: "string \<Rightarrow> host" where
  "missing_binary_host tmp =
     \<lparr>exec = (\<lambda>argv fs. (Inl (FileNotFoundError ''No such file or directory''), fs)),
      mkdtemp = (\<lambda>fs. Inr tmp), remove_fails = (\<lambda>d fs. None)\<rparr>"

definition replacing_host :: "completed_process \<Rightarrow> string \<Rightarrow> host" where
  "replacing_host r tmp =
     \<lparr>exec = (\<lambda>argv fs. (Inr r, fs\<lparr>files := (files fs)(tmp \<mapsto> []),
                                         dirs := dirs fs - {tmp}\<rparr>)),
      mkdtemp = (\<lambda>fs. Inr tmp), remove_fails = (\<lambda>d fs. None)\<rparr>"

definition empty_world :: world where
  "empty_world = \<lparr>fsys = \<lparr>files = Map.empty, dirs = {}\<rparr>, run_log = []\<rparr>"

definition exit_ok :: "string \<Rightarrow> completed_process" where
  "exit_ok out = \<lparr>returncode = 0, stdout = out, stderr = []\<rparr>"

definition exit_failed :: "int \<Rightarrow> string \<Rightarrow> string \<Rightarrow> completed_process" where
  "exit_failed rc out err = \<lparr>returncode = rc, stdout = out, stderr = err\<rparr>"

section \<open>Facts about the builders\<close>

lemmas nmap_args_defs =
  full_port_scan_args_def stealth_syn_scan_args_def tcp_connect_scan_args_def
  udp_scan_args_def os_detection_scan_args_def ping_sweep_args_def
  aggressive_scan_args_def add_pn_def

lemma nmap_custom_scan_args_Inr:
  "shlex_split extra_args = Inr tokens \<Longrightarrow>
   nmap_custom_scan_args target extra_args = Inr (S ''-Pn'' # map S tokens @ [S target])"
  by (simp add: nmap_custom_scan_args_def add_pn_def)

lemma nmap_custom_scan_args_InrD:
  "nmap_custom_scan_args target extra_args = Inr args \<Longrightarrow>
   \<exists>tokens. shlex_split extra_args = Inr tokens \<and> args = S ''-Pn'' # map S tokens @ [S target]"
  by (auto simp: nmap_custom_scan_args_def add_pn_def split: sum.splits)

lemma shlex_split_example:
  "shlex_split (''-p 80,443 --script '' @ [CHR 0x27] @ ''http-title and vuln'' @ [CHR 0x27])
   = Inr [''-p'', ''80,443'', ''--script'', ''http-title and vuln'']"
  by (simp add: shlex_split_def whitespace_def quotes_def escape_def escapedquotes_def)

section \<open>The host-discovery flag of the nmap tools\<close>

text \<open>
  C1 (as amended). Every list built by \<^verbatim>\<open>full_port_scan\<close>, \<^verbatim>\<open>stealth_syn_scan\<close>,
  \<^verbatim>\<open>tcp_connect_scan\<close>, \<^verbatim>\<open>udp_scan\<close>, \<^verbatim>\<open>os_detection_scan\<close>,
  \<^verbatim>\<open>aggressive_scan\<close> and \<^verbatim>\<open>custom_scan\<close> contains the token \<^verbatim>\<open>-Pn\<close>, whatever
  the parameters are. \<^verbatim>\<open>ping_sweep\<close> builds exactly \<^verbatim>\<open>["-sn", network]\<close>: the
  builder adds no \<^verbatim>\<open>-Pn\<close>, and the token occurs in the list only when the caller's
  network value is itself the string \<^verbatim>\<open>-Pn\<close>.
\<close>

theorem pn_flag_policy:
  "S ''-Pn'' \<in> set (full_port_scan_args target timing)
   \<and> S ''-Pn'' \<in> set (stealth_syn_scan_args target ports timing)
   \<and> S ''-Pn'' \<in> set (tcp_connect_scan_args target ports timing)
   \<and> S ''-Pn'' \<in> set (udp_scan_args target ports timing)
   \<and> S ''-Pn'' \<in> set (os_detection_scan_args target quick)
   \<and> S ''-Pn'' \<in> set (aggressive_scan_args target)
   \<and> (nmap_custom_scan_args target extra_args = Inr args \<longrightarrow> S ''-Pn'' \<in> set args)
   \<and> ping_sweep_args network = [S ''-sn'', S network]
   \<and> (S ''-Pn'' \<in> set (ping_sweep_args network)) = (network = ''-Pn'')"
  by (auto simp: nmap_args_defs dest: nmap_custom_scan_args_InrD)

theorem pn_flag_policy_witness:
  "S ''-Pn'' \<in> set (full_port_scan_args ''10.0.0.5'' Default)
   \<and> S ''-Pn'' \<in> set (os_detection_scan_args ''10.0.0.5'' (Given True))
   \<and> nmap_custom_scan_args ''10.0.0.5'' ''-sV -p 22'' = Inr (map S [''-Pn'', ''-sV'', ''-p'', ''22'', ''10.0.0.5''])
   \<and> S ''-Pn'' \<in> set (map S [''-Pn'', ''-sV'', ''-p'', ''22'', ''10.0.0.5''])
   \<and> S ''-Pn'' \<notin> set (ping_sweep_args ''10.0.0.0/24'')"
proof -
  have split: "shlex_split ''-sV -p 22'' = Inr [''-sV'', ''-p'', ''22'']"
    by (simp add: shlex_split_def whitespace_def quotes_def escape_def escapedquotes_def)
  have built: "nmap_custom_scan_args ''10.0.0.5'' ''-sV -p 22''
               = Inr (map S [''-Pn'', ''-sV'', ''-p'', ''22'', ''10.0.0.5''])"
    using nmap_custom_scan_args_Inr [OF split, of "''10.0.0.5''"] by simp
  show ?thesis
    using built
      pn_flag_policy [of "''10.0.0.5''" Default "Given ''1-10''" "Given True"
        "''-sV -p 22''" "map S [''-Pn'', ''-sV'', ''-p'', ''22'', ''10.0.0.5'']" "''10.0.0.0/24''"]
    by simp
qed

text \<open>
  The claim as stated (absent from the list of \<^verbatim>\<open>ping_sweep\<close> for every network value)
  fails when the network value is the string \<^verbatim>\<open>-Pn\<close>.
\<close>

theorem ping_sweep_pn_counterexample:
  "S ''-Pn'' \<in> set (ping_sweep_args ''-Pn'')"
  by (simp add: ping_sweep_args_def)

section \<open>The timing flag of the nmap port scans\<close>

text \<open>
  C9. With \<^verbatim>\<open>timing=None\<close> the four port scans do not leave the timing flag out:
  \<^verbatim>\<open>f"-{timing}"\<close> formats \<^verbatim>\<open>None\<close> into the text, and the list contains the token
  \<^verbatim>\<open>-None\<close>.
\<close>

theorem timing_none_token:
  "S ''-None'' \<in> set (full_port_scan_args target (Given None))
   \<and> S ''-None'' \<in> set (stealth_syn_scan_args target ports (Given None))
   \<and> S ''-None'' \<in> set (tcp_connect_scan_args target ports (Given None))
   \<and> S ''-None'' \<in> set (udp_scan_args target ports (Given None))"
  by (simp add: nmap_args_defs)

theorem timing_none_token_witness:
  "full_port_scan_args ''10.0.0.5'' (Given None)
     = map S [''-Pn'', ''-sS'', ''-p'', ''1-65535'', ''-None'', ''10.0.0.5'']
   \<and> S ''-None'' \<in> set (full_port_scan_args ''10.0.0.5'' (Given None))
   \<and> S ''-None'' \<in> set (stealth_syn_scan_args ''10.0.0.5'' Default (Given None))
   \<and> S ''-None'' \<in> set (tcp_connect_scan_args ''10.0.0.5'' (Given ''22,80'') (Given None))
   \<and> S ''-None'' \<in> set (udp_scan_args ''10.0.0.5'' Default (Given None))"
  using timing_none_token [of "''10.0.0.5''" Default]
    timing_none_token [of "''10.0.0.5''" "Given ''22,80''"]
  by (simp add: full_port_scan_args_def add_pn_def)

section \<open>The position of the target in the nmap lists\<close>

text \<open>
  C10. In every list an nmap tool builds, the target (for \<^verbatim>\<open>ping_sweep\<close> the network)
  is the last token. In \<^verbatim>\<open>custom_scan\<close> the list is \<^verbatim>\<open>-Pn\<close>, then the tokens of
  \<^verbatim>\<open>shlex.split(extra_args)\<close> in their order, then the target, so every token of the
  caller comes before the target.
\<close>

theorem nmap_target_last:
  "last (full_port_scan_args target timing) = S target
   \<and> last (stealth_syn_scan_args target ports timing) = S target
   \<and> last (tcp_connect_scan_args target ports timing) = S target
   \<and> last (udp_scan_args target ports timing) = S target
   \<and> last (os_detection_scan_args target quick) = S target
   \<and> last (ping_sweep_args network) = S network
   \<and> last (aggressive_scan_args target) = S target
   \<and> (nmap_custom_scan_args target extra_args = Inr args \<longrightarrow>
        last args = S target
        \<and> (\<exists>tokens. shlex_split extra_args = Inr tokens
              \<and> butlast args = S ''-Pn'' # map S tokens))"
proof -
  have custom: "nmap_custom_scan_args target extra_args = Inr args \<longrightarrow>
        last args = S target
        \<and> (\<exists>tokens. shlex_split extra_args = Inr tokens
              \<and> butlast args = S ''-Pn'' # map S tokens)"
  proof
    assume "nmap_custom_scan_args target extra_args = Inr args"
    then obtain tokens where t: "shlex_split extra_args = Inr tokens"
      and a: "args = S ''-Pn'' # map S tokens @ [S target]"
      using nmap_custom_scan_args_InrD by blast
    have "butlast args = S ''-Pn'' # map S tokens"
      using a by (simp add: butlast_append)
    moreover have "last args = S target" using a by simp
    ultimately show "last args = S target
        \<and> (\<exists>tokens. shlex_split extra_args = Inr tokens
              \<and> butlast args = S ''-Pn'' # map S tokens)"
      using t by blast
  qed
  have fixed: "last (full_port_scan_args target timing) = S target
   \<and> last (stealth_syn_scan_args target ports timing) = S target
   \<and> last (tcp_connect_scan_args target ports timing) = S target
   \<and> last (udp_scan_args target ports timing) = S target
   \<and> last (os_detection_scan_args target quick) = S target
   \<and> last (ping_sweep_args network) = S network
   \<and> last (aggressive_scan_args target) = S target"
    by (simp add: nmap_args_defs)
  from fixed custom show ?thesis by blast
qed

theorem nmap_target_last_witness:
  "last (full_port_scan_args ''10.0.0.5'' Default) = S ''10.0.0.5''
   \<and> last (os_detection_scan_args ''10.0.0.5'' (Given True)) = S ''10.0.0.5''
   \<and> last (ping_sweep_args ''10.0.0.0/24'') = S ''10.0.0.0/24''
   \<and> nmap_custom_scan_args ''10.0.0.5'' ''-sV -p 22''
       = Inr (map S [''-Pn'', ''-sV'', ''-p'', ''22'', ''10.0.0.5''])
   \<and> last (map S [''-Pn'', ''-sV'', ''-p'', ''22'', ''10.0.0.5'']) = S ''10.0.0.5''"
proof -
  have split: "shlex_split ''-sV -p 22'' = Inr [''-sV'', ''-p'', ''22'']"
    by (simp add: shlex_split_def whitespace_def quotes_def escape_def escapedquotes_def)
  have built: "nmap_custom_scan_args ''10.0.0.5'' ''-sV -p 22''
               = Inr (map S [''-Pn'', ''-sV'', ''-p'', ''22'', ''10.0.0.5''])"
    using nmap_custom_scan_args_Inr [OF split, of "''10.0.0.5''"] by simp
  show ?thesis
    using built
      nmap_target_last [of "''10.0.0.5''" Default "Given ''1-10''" "Given True"
        "''10.0.0.0/24''" "''-sV -p 22''" "map S [''-Pn'', ''-sV'', ''-p'', ''22'', ''10.0.0.5'']"]
    by simp
qed

section \<open>The process invoker\<close>

lemma sublist_at_end: "sublist xs (ps @ xs)"
  using sublist_appendI [of xs ps "[]"] by simp

lemma run_dirsearch_raised:
  assumes "exec h (S ''dirsearch'' # args) (fsys w) = (Inl e, fs)"
  shows "run_dirsearch h args w
         = (Inl e, \<lparr>fsys = fs, run_log = run_log w @ [S ''dirsearch'' # args]\<rparr>)"
  using assms by (simp add: run_dirsearch_def subprocess_run_def)

lemma run_nmap_raised:
  assumes "exec h (S ''nmap'' # args) (fsys w) = (Inl e, fs)"
  shows "run_nmap h args w
         = (Inl e, \<lparr>fsys = fs, run_log = run_log w @ [S ''nmap'' # args]\<rparr>)"
  using assms by (simp add: run_nmap_def subprocess_run_def)

lemma run_dirsearch_completed:
  assumes "exec h (S ''dirsearch'' # args) (fsys w) = (Inr r, fs)"
  shows "run_dirsearch h args w =
    (if returncode r \<noteq> 0 then
       Inl (RuntimeError (''dirsearch exited with '' @ str_int (returncode r) @ '':'' @ [CHR 0x0A]
              @ (if stderr r \<noteq> [] then stderr r else stdout r)))
     else Inr (stdout r),
     \<lparr>fsys = fs, run_log = run_log w @ [S ''dirsearch'' # args]\<rparr>)"
  using assms by (simp add: run_dirsearch_def subprocess_run_def)

lemma run_nmap_completed:
  assumes "exec h (S ''nmap'' # args) (fsys w) = (Inr r, fs)"
  shows "run_nmap h args w =
    (if returncode r \<noteq> 0 then
       Inl (RuntimeError (''Nmap exited with '' @ str_int (returncode r) @ '':'' @ [CHR 0x0A]
              @ (if stderr r \<noteq> [] then stderr r else stdout r)))
     else Inr (stdout r),
     \<lparr>fsys = fs, run_log = run_log w @ [S ''nmap'' # args]\<rparr>)"
  using assms by (simp add: run_nmap_def subprocess_run_def)

lemma exit_message_contains:
  "sublist (str_int rc) (name @ str_int rc @ '':'' @ [CHR 0x0A] @ diag)
   \<and> sublist diag (name @ str_int rc @ '':'' @ [CHR 0x0A] @ diag)"
proof
  show "sublist (str_int rc) (name @ str_int rc @ '':'' @ [CHR 0x0A] @ diag)"
    by (rule sublist_appendI)
  have "sublist diag ((name @ str_int rc @ '':'' @ [CHR 0x0A]) @ diag)"
    by (rule sublist_at_end)
  then show "sublist diag (name @ str_int rc @ '':'' @ [CHR 0x0A] @ diag)"
    by simp
qed

text \<open>
  C3 (as amended). For every argument list, host and world: an exception of
  \<^verbatim>\<open>subprocess.run\<close> itself (the binary cannot be started, its output cannot be
  decoded) leaves \<^verbatim>\<open>_run_dirsearch\<close> and \<^verbatim>\<open>_run_nmap\<close> as it is. When
  \<^verbatim>\<open>subprocess.run\<close> returns a completed process, the invoker returns exactly its
  standard output if the exit status is 0, and raises if and only if the exit status is
  not 0; the exception is then a \<^verbatim>\<open>RuntimeError\<close> whose message contains the exit
  code and the diagnostic text: standard error, or standard output when standard error is
  empty.
\<close>

theorem invoker_contract:
  "(case fst (exec h (S ''dirsearch'' # args) (fsys w)) of
      Inl e \<Rightarrow> fst (run_dirsearch h args w) = Inl e
    | Inr r \<Rightarrow>
        (returncode r = 0 \<longrightarrow> fst (run_dirsearch h args w) = Inr (stdout r))
        \<and> isl (fst (run_dirsearch h args w)) = (returncode r \<noteq> 0)
        \<and> (returncode r \<noteq> 0 \<longrightarrow>
             (\<exists>msg. fst (run_dirsearch h args w) = Inl (RuntimeError msg)
                \<and> sublist (str_int (returncode r)) msg
                \<and> sublist (if stderr r \<noteq> [] then stderr r else stdout r) msg)))
   \<and> (case fst (exec h (S ''nmap'' # args) (fsys w)) of
      Inl e \<Rightarrow> fst (run_nmap h args w) = Inl e
    | Inr r \<Rightarrow>
        (returncode r = 0 \<longrightarrow> fst (run_nmap h args w) = Inr (stdout r))
        \<and> isl (fst (run_nmap h args w)) = (returncode r \<noteq> 0)
        \<and> (returncode r \<noteq> 0 \<longrightarrow>
             (\<exists>msg. fst (run_nmap h args w) = Inl (RuntimeError msg)
                \<and> sublist (str_int (returncode r)) msg
                \<and> sublist (if stderr r \<noteq> [] then stderr r else stdout r) msg)))"
proof
  obtain x fs where d: "exec h (S ''dirsearch'' # args) (fsys w) = (x, fs)"
    by (cases "exec h (S ''dirsearch'' # args) (fsys w)")
  show "case fst (exec h (S ''dirsearch'' # args) (fsys w)) of
      Inl e \<Rightarrow> fst (run_dirsearch h args w) = Inl e
    | Inr r \<Rightarrow>
        (returncode r = 0 \<longrightarrow> fst (run_dirsearch h args w) = Inr (stdout r))
        \<and> isl (fst (run_dirsearch h args w)) = (returncode r \<noteq> 0)
        \<and> (returncode r \<noteq> 0 \<longrightarrow>
             (\<exists>msg. fst (run_dirsearch h args w) = Inl (RuntimeError msg)
                \<and> sublist (str_int (returncode r)) msg
                \<and> sublist (if stderr r \<noteq> [] then stderr r else stdout r) msg))"
  proof (cases x)
    case (Inl e)
    then show ?thesis
      using d by (simp add: run_dirsearch_raised)
  next
    case (Inr r)
    then have c: "exec h (S ''dirsearch'' # args) (fsys w) = (Inr r, fs)"
      using d by simp
    show ?thesis
      using exit_message_contains [of "returncode r" "''dirsearch exited with ''"]
      by (simp add: c run_dirsearch_completed [OF c])
  qed
next
  obtain x fs where n: "exec h (S ''nmap'' # args) (fsys w) = (x, fs)"
    by (cases "exec h (S ''nmap'' # args) (fsys w)")
  show "case fst (exec h (S ''nmap'' # args) (fsys w)) of
      Inl e \<Rightarrow> fst (run_nmap h args w) = Inl e
    | Inr r \<Rightarrow>
        (returncode r = 0 \<longrightarrow> fst (run_nmap h args w) = Inr (stdout r))
        \<and> isl (fst (run_nmap h args w)) = (returncode r \<noteq> 0)
        \<and> (returncode r \<noteq> 0 \<longrightarrow>
             (\<exists>msg. fst (run_nmap h args w) = Inl (RuntimeError msg)
                \<and> sublist (str_int (returncode r)) msg
                \<and> sublist (if stderr r \<noteq> [] then stderr r else stdout r) msg))"
  proof (cases x)
    case (Inl e)
    then show ?thesis
      using n by (simp add: run_nmap_raised)
  next
    case (Inr r)
    then have c: "exec h (S ''nmap'' # args) (fsys w) = (Inr r, fs)"
      using n by simp
    show ?thesis
      using exit_message_contains [of "returncode r" "''Nmap exited with ''"]
      by (simp add: c run_nmap_completed [OF c])
  qed
qed

theorem invoker_contract_witness:
  "isl (fst (run_dirsearch (quiet_host (exit_failed 2 [] ''err'') ''/tmp/t'') [S ''-q''] empty_world))
   \<and> isl (fst (run_nmap (quiet_host (exit_failed 2 [] ''err'') ''/tmp/t'') [S ''-q''] empty_world))
   \<and> fst (run_dirsearch (quiet_host (exit_failed 2 [] ''err'') ''/tmp/t'') [S ''-q''] empty_world)
     = Inl (RuntimeError (''dirsearch exited with 2:'' @ [CHR 0x0A] @ ''err''))
   \<and> sublist ''2'' (''dirsearch exited with 2:'' @ [CHR 0x0A] @ ''err'')
   \<and> sublist ''err'' (''dirsearch exited with 2:'' @ [CHR 0x0A] @ ''err'')
   \<and> fst (run_nmap (quiet_host (exit_failed 2 ''out'' []) ''/tmp/t'') [S ''-q''] empty_world)
     = Inl (RuntimeError (''Nmap exited with 2:'' @ [CHR 0x0A] @ ''out''))
   \<and> fst (run_dirsearch (quiet_host (exit_ok ''X'') ''/tmp/t'') [S ''-q''] empty_world) = Inr ''X''
   \<and> fst (run_nmap (quiet_host (exit_ok ''X'') ''/tmp/t'') [S ''-q''] empty_world) = Inr ''X''
   \<and> fst (run_dirsearch (missing_binary_host ''/tmp/t'') [S ''-q''] empty_world)
     = Inl (FileNotFoundError ''No such file or directory'')"
proof -
  let ?h = "quiet_host (exit_failed 2 [] ''err'') ''/tmp/t''"
  let ?ok = "quiet_host (exit_ok ''X'') ''/tmp/t''"
  have two: "str_int 2 = ''2''"
    by (simp add: str_int_def str_nat.simps digit_char_def)
  have s1: "sublist ''2'' (''dirsearch exited with 2:'' @ [CHR 0x0A] @ ''err'')"
    using sublist_appendI [of "''2''" "''dirsearch exited with ''" "'':'' @ [CHR 0x0A] @ ''err''"]
    by simp
  have s2: "sublist ''err'' (''dirsearch exited with 2:'' @ [CHR 0x0A] @ ''err'')"
    using sublist_at_end [of "''err''" "''dirsearch exited with 2:'' @ [CHR 0x0A]"] by simp
  have m1: "fst (run_dirsearch ?h [S ''-q''] empty_world)
     = Inl (RuntimeError (''dirsearch exited with 2:'' @ [CHR 0x0A] @ ''err''))"
    by (simp add: run_dirsearch_def subprocess_run_def quiet_host_def exit_failed_def two)
  have m2: "fst (run_nmap (quiet_host (exit_failed 2 ''out'' []) ''/tmp/t'') [S ''-q''] empty_world)
     = Inl (RuntimeError (''Nmap exited with 2:'' @ [CHR 0x0A] @ ''out''))"
    by (simp add: run_nmap_def subprocess_run_def quiet_host_def exit_failed_def two)
  show ?thesis
    using s1 s2 m1 m2
      invoker_contract [of ?h "[S ''-q'']" empty_world]
      invoker_contract [of ?ok "[S ''-q'']" empty_world]
      invoker_contract [of "missing_binary_host ''/tmp/t''" "[S ''-q'']" empty_world]
    by (simp add: quiet_host_def missing_binary_host_def exit_failed_def exit_ok_def)
qed

text \<open>
  The claim as stated (the invoker raises if and only if the exit status is not 0) fails
  where \<^verbatim>\<open>subprocess.run\<close> itself raises: on a host that cannot start the binary no
  process exits with any status, and both invokers raise.
\<close>

theorem invoker_contract_counterexample:
  "exec (missing_binary_host ''/tmp/t'') (S ''dirsearch'' # [S ''-q'']) (fsys empty_world)
     = (Inl (FileNotFoundError ''No such file or directory''), fsys empty_world)
   \<and> fst (run_dirsearch (missing_binary_host ''/tmp/t'') [S ''-q''] empty_world)
     = Inl (FileNotFoundError ''No such file or directory'')
   \<and> fst (run_nmap (missing_binary_host ''/tmp/t'') [S ''-q''] empty_world)
     = Inl (FileNotFoundError ''No such file or directory'')"
  by (simp add: run_dirsearch_def run_nmap_def subprocess_run_def missing_binary_host_def)

section \<open>Facts about the lexer\<close>

lemma cons_token_Inl [simp]: "(cons_token t r = Inl e) = (r = Inl e)"
  by (cases r) auto

lemma cons_token_Inr: "(cons_token t r = Inr ts) = (\<exists>ts'. r = Inr ts' \<and> ts = t # ts')"
  by (cases r) auto

lemma isl_cons_token [simp]: "isl (cons_token t r) = isl r"
  by (cases r) auto

lemma lex_chars:
  "c \<in> set whitespace \<Longrightarrow> c \<noteq> CHR 0x5C \<and> c \<noteq> CHR 0x27 \<and> c \<noteq> CHR 0x22"
  "(c \<in> set escape) = (c = CHR 0x5C)"
  "(c \<in> set quotes) = (c = CHR 0x27 \<or> c = CHR 0x22)"
  "(c \<in> set escapedquotes) = (c = CHR 0x22)"
  by (auto simp: whitespace_def escape_def quotes_def escapedquotes_def)

text \<open>
  The lexer fails exactly where the quoting scan ends inside a quoted part or after a
  backslash, and with the exception that belongs to that place.
\<close>

lemma lex_error_iff:
  "quoting_of st esc = Some qs \<Longrightarrow>
   (lex st tok quoted esc cs = Inl e) = (scan_error (foldl quote_step qs cs) = Some e)"
proof (induction st tok quoted esc cs arbitrary: qs rule: lex.induct)
  case (1 tok quoted esc cs)
  then show ?case by simp
next
  case (2 tok quoted esc)
  then show ?case by auto
next
  case (3 tok quoted esc c cs)
  then show ?case
    by (auto simp: lex_chars split: if_splits)
next
  case (4 q tok quoted esc)
  then show ?case by (auto split: if_splits)
next
  case (5 q tok quoted esc c cs)
  then show ?case
    by (auto simp: lex_chars split: if_splits)
next
  case (6 e tok quoted esc)
  then show ?case
    by (cases esc) (auto split: if_splits)
next
  case (7 e tok quoted esc c cs)
  then show ?case
    by (cases esc) (auto simp: lex_chars split: if_splits)
next
  case (8 tok quoted esc)
  then show ?case by auto
next
  case (9 tok quoted esc c cs)
  then show ?case
    by (auto simp: lex_chars split: if_splits)
qed

lemma shlex_split_error_iff:
  "(shlex_split s = Inl e) = (scan_error (quote_scan s) = Some e)"
  by (simp add: shlex_split_def quote_scan_def lex_error_iff)

lemma shlex_split_well_formed:
  "well_formed s \<Longrightarrow> \<exists>tokens. shlex_split s = Inr tokens"
proof -
  assume "well_formed s"
  then have "\<And>e. shlex_split s \<noteq> Inl e"
    by (simp add: shlex_split_error_iff well_formed_def)
  then show ?thesis by (cases "shlex_split s") auto
qed

lemma shlex_split_unterminated:
  "unterminated_quote s \<Longrightarrow>
   shlex_split s = Inl (ValueError (if quote_scan s = Escaped_in_double
                                    then ''No escaped character'' else ''No closing quotation''))"
  by (auto simp: shlex_split_error_iff unterminated_quote_def)

text \<open>
  The lexer only drops characters (blanks between tokens, quotes, escaping backslashes)
  and never reorders them: the tokens, one after the other, are a subsequence of what the
  lexer has in hand and still reads.
\<close>

lemma keeps_order_skip: "keeps_order tok rest r \<Longrightarrow> keeps_order tok (c # rest) r"
  by (auto simp: keeps_order_def split: sum.splits)

lemma keeps_order_take: "keeps_order (tok @ [c]) rest r \<Longrightarrow> keeps_order tok (c # rest) r"
  by (auto simp: keeps_order_def split: sum.splits)

lemma keeps_order_take2:
  "keeps_order ((tok @ [e]) @ [c]) rest r \<Longrightarrow> keeps_order tok (e # c # rest) r"
  by (auto simp: keeps_order_def split: sum.splits)

lemma keeps_order_first: "keeps_order [c] rest r \<Longrightarrow> keeps_order [] (c # rest) r"
  by (auto simp: keeps_order_def split: sum.splits)

lemma keeps_order_emit: "keeps_order [] rest r \<Longrightarrow> keeps_order tok (c # rest) (cons_token tok r)"
  by (cases r) (auto simp: keeps_order_def)

lemma keeps_order_end [simp]: "keeps_order tok rest (Inr [tok])" "keeps_order [] rest (Inr [])"
  "keeps_order tok rest (Inl e)"
  by (auto simp: keeps_order_def)

lemma lex_keeps_order:
  "quoting_of st esc \<noteq> None \<Longrightarrow> (st = St_space \<longrightarrow> tok = []) \<Longrightarrow>
   keeps_order tok (pending st @ cs) (lex st tok quoted esc cs)"
proof (induction st tok quoted esc cs rule: lex.induct)
  case (1 tok quoted esc cs)
  then show ?case by simp
next
  case (2 tok quoted esc)
  then show ?case by simp
next
  case (3 tok quoted esc c cs)
  show ?case
  proof (cases "c \<in> set whitespace")
    case True
    then show ?thesis
      using 3 by (auto intro: keeps_order_skip keeps_order_emit)
  next
    case ws: False
    show ?thesis
    proof (cases "c \<in> set escape")
      case True
      then show ?thesis using ws 3 by (auto simp: lex_chars)
    next
      case es: False
      show ?thesis
      proof (cases "c \<in> set quotes")
        case True
        then show ?thesis using ws es 3 by (auto simp: lex_chars intro: keeps_order_skip)
      next
        case False
        then show ?thesis using ws es 3 by (auto intro: keeps_order_first)
      qed
    qed
  qed
next
  case (4 q tok quoted esc)
  then show ?case by simp
next
  case (5 q tok quoted esc c cs)
  show ?case
  proof (cases "c = q")
    case True
    then show ?thesis using 5 by (auto intro: keeps_order_skip)
  next
    case nq: False
    show ?thesis
    proof (cases "c \<in> set escape \<and> q \<in> set escapedquotes")
      case True
      then show ?thesis using nq 5 by (auto simp: lex_chars)
    next
      case False
      then have "lex (St_quote q) tok quoted esc (c # cs) = lex (St_quote q) (tok @ [c]) True esc cs"
        using nq by auto
      moreover have "keeps_order (tok @ [c]) cs (lex (St_quote q) (tok @ [c]) True esc cs)"
        using 5(3) [OF nq False] 5(4) by simp
      ultimately show ?thesis by (simp add: keeps_order_take)
    qed
  qed
next
  case (6 e tok quoted esc)
  then show ?case by simp
next
  case (7 e tok quoted esc c cs)
  from 7(2) have esc: "esc = St_word \<or> esc = St_quote (CHR 0x22)"
    by (cases esc) (auto split: if_splits)
  then have ok: "quoting_of esc esc \<noteq> None" "esc \<noteq> St_space" "pending esc = []"
    by auto
  let ?tok = "(if in_quotes_state esc c \<and> c \<noteq> e then tok @ [e] else tok) @ [c]"
  have ih: "keeps_order ?tok cs (lex esc ?tok quoted esc cs)"
    using 7(1) [of] ok by simp
  show ?case
  proof (cases "in_quotes_state esc c \<and> c \<noteq> e")
    case True
    then have "?tok = (tok @ [e]) @ [c]"
      by simp
    then have "keeps_order tok (e # c # cs) (lex (St_escape e) tok quoted esc (c # cs))"
      using ih keeps_order_take2 [of tok e c cs] by simp
    then show ?thesis by simp
  next
    case False
    then have "?tok = tok @ [c]"
      by (auto split: if_splits)
    then have "keeps_order tok (c # cs) (lex (St_escape e) tok quoted esc (c # cs))"
      using ih by (simp add: keeps_order_take)
    then show ?thesis by (simp add: keeps_order_skip)
  qed
next
  case (8 tok quoted esc)
  then show ?case by simp
next
  case (9 tok quoted esc c cs)
  show ?case
  proof (cases "c \<in> set whitespace")
    case True
    then show ?thesis
      using 9 by (auto intro: keeps_order_skip keeps_order_emit)
  next
    case ws: False
    show ?thesis
    proof (cases "c \<in> set quotes")
      case True
      then show ?thesis using ws 9 by (auto simp: lex_chars intro: keeps_order_skip)
    next
      case qu: False
      show ?thesis
      proof (cases "c \<in> set escape")
        case True
        then show ?thesis using ws qu 9 by (auto simp: lex_chars)
      next
        case False
        then show ?thesis using ws qu 9 by (auto intro: keeps_order_take)
      qed
    qed
  qed
qed

lemma shlex_split_subseq:
  "shlex_split s = Inr tokens \<Longrightarrow> subseq (concat tokens) s"
  using lex_keeps_order [of St_space St_space "[]" s False]
  by (auto simp: shlex_split_def keeps_order_def)

text \<open>
  Quoting at work: after a word of ordinary characters and a blank, a single-quoted part
  is one token, taken as it stands, blanks, double quotes and backslashes included.
\<close>

lemma lex_word_run:
  "\<forall>c \<in> set w. c \<notin> set whitespace \<and> c \<notin> set quotes \<and> c \<notin> set escape \<Longrightarrow>
   lex St_word tok quoted esc (w @ rest) = lex St_word (tok @ w) quoted esc rest"
  by (induction w arbitrary: tok) simp_all

lemma lex_single_quoted:
  "CHR 0x27 \<notin> set body \<Longrightarrow>
   lex (St_quote (CHR 0x27)) tok quoted esc (body @ CHR 0x27 # rest)
   = lex St_word (tok @ body) True esc rest"
  by (induction body arbitrary: tok quoted) (auto simp: escapedquotes_def)

lemma shlex_split_quoted_argument:
  assumes "w \<noteq> []"
    and "\<forall>c \<in> set w. c \<notin> set whitespace \<and> c \<notin> set quotes \<and> c \<notin> set escape"
    and "CHR 0x27 \<notin> set body"
  shows "shlex_split (w @ '' '' @ [CHR 0x27] @ body @ [CHR 0x27]) = Inr [w, body]"
proof -
  obtain c w' where w: "w = c # w'"
    using assms(1) by (cases w) auto
  have c: "c \<notin> set whitespace" "c \<notin> set quotes" "c \<notin> set escape"
    and w': "\<forall>c \<in> set w'. c \<notin> set whitespace \<and> c \<notin> set quotes \<and> c \<notin> set escape"
    using assms(2) w by auto
  have "shlex_split (w @ '' '' @ [CHR 0x27] @ body @ [CHR 0x27])
        = lex St_word [c] False St_space (w' @ CHR '' '' # CHR 0x27 # body @ [CHR 0x27])"
    using c by (simp add: shlex_split_def w)
  also have "\<dots> = lex St_word ([c] @ w') False St_space (CHR '' '' # CHR 0x27 # body @ [CHR 0x27])"
    by (rule lex_word_run [OF w'])
  also have "\<dots> = cons_token w (lex (St_quote (CHR 0x27)) [] False St_space (body @ [CHR 0x27]))"
    by (simp add: w whitespace_def quotes_def escape_def)
  also have "\<dots> = cons_token w (lex St_word ([] @ body) True St_space [])"
    using lex_single_quoted [OF assms(3), of "[]" False St_space "[]"] by simp
  also have "\<dots> = Inr [w, body]"
    by simp
  finally show ?thesis .
qed

section \<open>The custom scans\<close>

lemma run_dirsearch_log:
  "run_log (snd (run_dirsearch h args w)) = run_log w @ [S ''dirsearch'' # args]"
  by (auto simp: run_dirsearch_def subprocess_run_def split: prod.splits sum.splits)

lemma run_nmap_log:
  "run_log (snd (run_nmap h args w)) = run_log w @ [S ''nmap'' # args]"
  by (auto simp: run_nmap_def subprocess_run_def split: prod.splits sum.splits)


lemma twenty: "str_int 20 = ''20''"
  by (simp add: str_int_def str_nat.simps digit_char_def)


lemma dirsearch_custom_scan_args_Inr:
  "shlex_split extra_args = Inr tokens \<Longrightarrow>
   dirsearch_custom_scan_args url extra_args
   = Inr ([S ''-q'', S ''-t'', S ''20'', S ''-u'', S url] @ map S tokens)"
  by (simp add: dirsearch_custom_scan_args_def base_args_def twenty)

text \<open>
  C4. When \<^verbatim>\<open>extra_args\<close> has an unterminated quote, \<^verbatim>\<open>shlex.split\<close> raises
  \<^verbatim>\<open>ValueError\<close>, both \<^verbatim>\<open>custom_scan\<close> tools fail with that exception, and
  the world after the call is the world before it: \<^verbatim>\<open>subprocess.run\<close> has not been
  called, so no process has been started.
\<close>

theorem custom_scan_unterminated_quote:
  assumes "unterminated_quote extra_args"
  shows "\<exists>msg. shlex_split extra_args = Inl (ValueError msg)
     \<and> dirsearch_custom_scan h url extra_args w = (Inl (ValueError msg), w)
     \<and> nmap_custom_scan h target extra_args w = (Inl (ValueError msg), w)
     \<and> run_log (snd (dirsearch_custom_scan h url extra_args w)) = run_log w
     \<and> run_log (snd (nmap_custom_scan h target extra_args w)) = run_log w"
proof -
  from shlex_split_unterminated [OF assms]
  obtain msg where m: "shlex_split extra_args = Inl (ValueError msg)"
    by blast
  have d: "dirsearch_custom_scan h url extra_args w = (Inl (ValueError msg), w)"
    by (simp add: dirsearch_custom_scan_def dirsearch_custom_scan_args_def m)
  have n: "nmap_custom_scan h target extra_args w = (Inl (ValueError msg), w)"
    by (simp add: nmap_custom_scan_def nmap_custom_scan_args_def m)
  from m d n show ?thesis by simp
qed

theorem custom_scan_unterminated_quote_witness:
  "unterminated_quote (''-p 80 --script '' @ [CHR 0x27] @ ''vuln'')
   \<and> dirsearch_custom_scan (quiet_host (exit_ok ''X'') ''/tmp/t'') ''http://h/''
        (''-p 80 --script '' @ [CHR 0x27] @ ''vuln'') empty_world
      = (Inl (ValueError ''No closing quotation''), empty_world)
   \<and> nmap_custom_scan (quiet_host (exit_ok ''X'') ''/tmp/t'') ''10.0.0.5''
        (''-p 80 --script '' @ [CHR 0x27] @ ''vuln'') empty_world
      = (Inl (ValueError ''No closing quotation''), empty_world)
   \<and> run_log (snd (nmap_custom_scan (quiet_host (exit_ok ''X'') ''/tmp/t'') ''10.0.0.5''
        (''-p 80 --script '' @ [CHR 0x27] @ ''vuln'') empty_world)) = []"
proof -
  have u: "unterminated_quote (''-p 80 --script '' @ [CHR 0x27] @ ''vuln'')"
    by (simp add: unterminated_quote_def quote_scan_def)
  have s: "shlex_split (''-p 80 --script '' @ [CHR 0x27] @ ''vuln'')
           = Inl (ValueError ''No closing quotation'')"
    by (simp add: shlex_split_def whitespace_def quotes_def escape_def escapedquotes_def)
  show ?thesis
    using u s
      custom_scan_unterminated_quote [OF u, of "quiet_host (exit_ok ''X'') ''/tmp/t''"
        "''http://h/''" empty_world "''10.0.0.5''"]
    by (auto simp: empty_world_def)
qed

text \<open>
  C8. When the quotes and escapes of \<^verbatim>\<open>extra_args\<close> are closed, \<^verbatim>\<open>shlex.split\<close>
  returns tokens; their characters occur in \<^verbatim>\<open>extra_args\<close> in the same order; the
  list of the dirsearch \<^verbatim>\<open>custom_scan\<close> is the base flags \<^verbatim>\<open>-q -t 20 -u url\<close>
  followed by the tokens in their order, and the list of the nmap \<^verbatim>\<open>custom_scan\<close> is
  the base flag \<^verbatim>\<open>-Pn\<close> followed by the tokens in their order and the target. These
  lists are what the tools hand to \<^verbatim>\<open>subprocess.run\<close>. The splitting respects
  quoting: a word of ordinary characters, a blank and a single-quoted part are two
  tokens, the second being the quoted part as it stands.
\<close>

theorem custom_scan_tokens:
  assumes "well_formed extra_args"
  shows "\<exists>tokens. shlex_split extra_args = Inr tokens
     \<and> subseq (concat tokens) extra_args
     \<and> dirsearch_custom_scan_args url extra_args
         = Inr ([S ''-q'', S ''-t'', S ''20'', S ''-u'', S url] @ map S tokens)
     \<and> nmap_custom_scan_args target extra_args = Inr ([S ''-Pn''] @ map S tokens @ [S target])
     \<and> run_log (snd (dirsearch_custom_scan h url extra_args w))
         = run_log w @ [S ''dirsearch'' # [S ''-q'', S ''-t'', S ''20'', S ''-u'', S url] @ map S tokens]
     \<and> run_log (snd (nmap_custom_scan h target extra_args w))
         = run_log w @ [S ''nmap'' # [S ''-Pn''] @ map S tokens @ [S target]]
     \<and> (word \<noteq> []
          \<and> (\<forall>c \<in> set word. c \<notin> set whitespace \<and> c \<notin> set quotes \<and> c \<notin> set escape)
          \<and> CHR 0x27 \<notin> set body \<longrightarrow>
          shlex_split (word @ '' '' @ [CHR 0x27] @ body @ [CHR 0x27]) = Inr [word, body])"
proof -
  have quoted: "word \<noteq> []
          \<and> (\<forall>c \<in> set word. c \<notin> set whitespace \<and> c \<notin> set quotes \<and> c \<notin> set escape)
          \<and> CHR 0x27 \<notin> set body \<longrightarrow>
          shlex_split (word @ '' '' @ [CHR 0x27] @ body @ [CHR 0x27]) = Inr [word, body]"
    using shlex_split_quoted_argument [of word body] by blast
  from shlex_split_well_formed [OF assms]
  obtain tokens where t: "shlex_split extra_args = Inr tokens"
    by blast
  note d = dirsearch_custom_scan_args_Inr [OF t, of url]
  note n = nmap_custom_scan_args_Inr [OF t, of target]
  have dl: "run_log (snd (dirsearch_custom_scan h url extra_args w))
         = run_log w @ [S ''dirsearch'' # [S ''-q'', S ''-t'', S ''20'', S ''-u'', S url] @ map S tokens]"
    by (simp add: dirsearch_custom_scan_def d run_dirsearch_log)
  have nl: "run_log (snd (nmap_custom_scan h target extra_args w))
         = run_log w @ [S ''nmap'' # [S ''-Pn''] @ map S tokens @ [S target]]"
    by (simp add: nmap_custom_scan_def n run_nmap_log)
  have "shlex_split extra_args = Inr tokens
     \<and> subseq (concat tokens) extra_args
     \<and> dirsearch_custom_scan_args url extra_args
         = Inr ([S ''-q'', S ''-t'', S ''20'', S ''-u'', S url] @ map S tokens)
     \<and> nmap_custom_scan_args target extra_args = Inr ([S ''-Pn''] @ map S tokens @ [S target])
     \<and> run_log (snd (dirsearch_custom_scan h url extra_args w))
         = run_log w @ [S ''dirsearch'' # [S ''-q'', S ''-t'', S ''20'', S ''-u'', S url] @ map S tokens]
     \<and> run_log (snd (nmap_custom_scan h target extra_args w))
         = run_log w @ [S ''nmap'' # [S ''-Pn''] @ map S tokens @ [S target]]"
    using t shlex_split_subseq [OF t] d n dl nl by simp
  with quoted show ?thesis by blast
qed

theorem custom_scan_tokens_witness:
  "well_formed (''-p 80,443 --script '' @ [CHR 0x27] @ ''http-title and vuln'' @ [CHR 0x27])
   \<and> shlex_split (''-p 80,443 --script '' @ [CHR 0x27] @ ''http-title and vuln'' @ [CHR 0x27])
       = Inr [''-p'', ''80,443'', ''--script'', ''http-title and vuln'']
   \<and> dirsearch_custom_scan_args ''http://h/''
        (''-p 80,443 --script '' @ [CHR 0x27] @ ''http-title and vuln'' @ [CHR 0x27])
       = Inr (map S [''-q'', ''-t'', ''20'', ''-u'', ''http://h/'',
                     ''-p'', ''80,443'', ''--script'', ''http-title and vuln''])
   \<and> nmap_custom_scan_args ''10.0.0.5''
        (''-p 80,443 --script '' @ [CHR 0x27] @ ''http-title and vuln'' @ [CHR 0x27])
       = Inr (map S [''-Pn'', ''-p'', ''80,443'', ''--script'', ''http-title and vuln'',
                     ''10.0.0.5''])
   \<and> run_log (snd (nmap_custom_scan (quiet_host (exit_ok ''X'') ''/tmp/t'') ''10.0.0.5''
        (''-p 80,443 --script '' @ [CHR 0x27] @ ''http-title and vuln'' @ [CHR 0x27]) empty_world))
       = [map S [''nmap'', ''-Pn'', ''-p'', ''80,443'', ''--script'', ''http-title and vuln'',
                 ''10.0.0.5'']]
   \<and> shlex_split (''--script '' @ [CHR 0x27] @ ''http-title and vuln'' @ [CHR 0x27])
       = Inr [''--script'', ''http-title and vuln'']"
proof -
  have wf: "well_formed (''-p 80,443 --script '' @ [CHR 0x27] @ ''http-title and vuln'' @ [CHR 0x27])"
    by (simp add: well_formed_def quote_scan_def)
  show ?thesis
    using wf shlex_split_example
      custom_scan_tokens [OF wf, where url = "''http://h/''" and target = "''10.0.0.5''"
        and h = "quiet_host (exit_ok ''X'') ''/tmp/t''" and w = empty_world
        and word = "''--script''" and body = "''http-title and vuln''"]
    by (auto simp: empty_world_def whitespace_def quotes_def escape_def)
qed

section \<open>The report-capturing scan\<close>

lemma inside_report_path: "inside tmp (os_path_join tmp ''report.json'')"
  by (auto simp: inside_def os_path_join_def)

lemma rmtree_removes: "inside d p \<Longrightarrow> \<not> path_exists (rmtree d fs) p"
  by (simp add: rmtree_def path_exists_def)

lemma run_dirsearch_fsys:
  "fsys (snd (run_dirsearch h args w)) = snd (exec h (S ''dirsearch'' # args) (fsys w))"
  by (auto simp: run_dirsearch_def subprocess_run_def split: prod.splits sum.splits)

lemma universal_newlines_without_cr:
  "CHR 0x0D \<notin> set bytes \<Longrightarrow> universal_newlines bytes = bytes"
  by (induction bytes rule: universal_newlines.induct) auto

lemma read_text_Inr:
  "read_text path w = Inr text \<Longrightarrow>
   \<exists>bytes. files (fsys w) path = Some bytes \<and> valid_utf8 bytes
      \<and> text = universal_newlines bytes"
  by (auto simp: read_text_def decode_text_def split: if_splits option.splits)

lemma json_report_block_fsys:
  "fsys (snd (json_report_block h path url extensions threads show_errors w))
   = snd (exec h (S ''dirsearch'' # json_report_scan_args path url extensions threads show_errors)
            (fsys w))"
proof -
  have "fsys (snd (json_report_block h path url extensions threads show_errors w))
        = fsys (snd (run_dirsearch h
                  (json_report_scan_args path url extensions threads show_errors) w))"
    by (auto simp: json_report_block_def split: prod.splits sum.splits)
  then show ?thesis
    by (simp add: run_dirsearch_fsys)
qed

lemma json_report_block_run_log:
  "run_log (snd (json_report_block h path url extensions threads show_errors w))
   = run_log w @ [S ''dirsearch'' # json_report_scan_args path url extensions threads show_errors]"
proof -
  have "run_log (snd (json_report_block h path url extensions threads show_errors w))
        = run_log (snd (run_dirsearch h
                  (json_report_scan_args path url extensions threads show_errors) w))"
    by (auto simp: json_report_block_def split: prod.splits sum.splits)
  then show ?thesis
    by (simp add: run_dirsearch_log)
qed

lemma json_report_block_Inr:
  assumes "fst (json_report_block h path url extensions threads show_errors w) = Inr text"
  shows "\<exists>bytes.
      files (snd (exec h
                (S ''dirsearch'' # json_report_scan_args path url extensions threads show_errors)
                (fsys w))) path = Some bytes
      \<and> valid_utf8 bytes \<and> text = universal_newlines bytes"
proof -
  let ?run = "run_dirsearch h
                (json_report_scan_args path url extensions threads show_errors) w"
  obtain r w' where run: "?run = (r, w')"
    by (cases ?run)
  with assms have "read_text path w' = Inr text"
    by (auto simp: json_report_block_def split: sum.splits)
  then obtain bytes where "files (fsys w') path = Some bytes" "valid_utf8 bytes"
      "text = universal_newlines bytes"
    using read_text_Inr by blast
  moreover have "fsys w' = snd (exec h
      (S ''dirsearch'' # json_report_scan_args path url extensions threads show_errors) (fsys w))"
    using run_dirsearch_fsys [of h _ w] run by (metis snd_conv)
  ultimately show ?thesis by auto
qed

lemma tempdir_exit_fsys:
  "fsys (snd (tempdir_exit h tmp block)) = snd (tempdir_cleanup h tmp (fsys (snd block)))"
  by (auto simp: tempdir_exit_def split: prod.splits option.splits)

lemma tempdir_exit_run_log:
  "run_log (snd (tempdir_exit h tmp block)) = run_log (snd block)"
  by (auto simp: tempdir_exit_def split: prod.splits option.splits)

lemma tempdir_exit_result:
  "fst (tempdir_exit h tmp block)
   = (case fst (tempdir_cleanup h tmp (fsys (snd block))) of
        None \<Rightarrow> fst block
      | Some e \<Rightarrow> Inl e)"
  by (auto simp: tempdir_exit_def split: prod.splits option.splits)

lemma tempdir_cleanup_done:
  "fst (tempdir_cleanup h tmp fs) = None \<Longrightarrow> snd (tempdir_cleanup h tmp fs) = rmtree tmp fs"
  by (auto simp: tempdir_cleanup_def split: if_splits option.splits)

lemma json_report_scan_unfold:
  assumes "mkdtemp h (fsys w) = Inr tmp"
  shows "json_report_scan h url extensions threads show_errors w =
    tempdir_exit h tmp
      (json_report_block h (os_path_join tmp ''report.json'') url extensions threads show_errors
         (w\<lparr>fsys := (fsys w)\<lparr>dirs := insert tmp (dirs (fsys w))\<rparr>\<rparr>))"
  using assms by (simp add: json_report_scan_def tempdir_enter_def)

lemma json_report_scan_no_tempdir:
  assumes "mkdtemp h (fsys w) = Inl e"
  shows "json_report_scan h url extensions threads show_errors w = (Inl e, w)"
  using assms by (simp add: json_report_scan_def tempdir_enter_def)

lemma json_report_scan_fsys:
  assumes "mkdtemp h (fsys w) = Inr tmp"
  shows "fsys (snd (json_report_scan h url extensions threads show_errors w))
   = snd (tempdir_cleanup h tmp
       (snd (exec h
          (S ''dirsearch'' # json_report_scan_args (os_path_join tmp ''report.json'')
                               url extensions threads show_errors)
          ((fsys w)\<lparr>dirs := insert tmp (dirs (fsys w))\<rparr>))))"
  by (simp add: json_report_scan_unfold [OF assms] tempdir_exit_fsys json_report_block_fsys)

text \<open>
  C5 (as amended). If no temporary directory can be created, \<^verbatim>\<open>json_report_scan\<close>
  raises and changes nothing. Otherwise, with \<open>tmp\<close> the directory and \<open>left\<close> the
  file system the external process leaves behind: the report path lies inside \<open>tmp\<close>;
  the cleanup of \<open>tmp\<close> is run on \<open>left\<close> on every exit path, and the file system after
  the call is what the cleanup makes of it; when the cleanup fails, the call raises the
  cleanup's exception; when it succeeds, no path inside \<open>tmp\<close> exists after the call;
  and a returned string is the content of \<^verbatim>\<open>report.json\<close> in \<open>left\<close>, which is
  well-formed UTF-8, with \<^verbatim>\<open>\r\n\<close> and \<^verbatim>\<open>\r\<close> turned into \<^verbatim>\<open>\n\<close>: the content
  itself, byte for byte, when it holds no carriage return.
\<close>

theorem json_report_scan_effects:
  "(case mkdtemp h (fsys w) of
      Inl e \<Rightarrow> json_report_scan h url extensions threads show_errors w = (Inl e, w)
    | Inr tmp \<Rightarrow>
        (let path = os_path_join tmp ''report.json'';
             left = snd (exec h
                      (S ''dirsearch'' # json_report_scan_args path url extensions threads
                                           show_errors)
                      ((fsys w)\<lparr>dirs := insert tmp (dirs (fsys w))\<rparr>));
             result = json_report_scan h url extensions threads show_errors w
         in inside tmp path
            \<and> fsys (snd result) = snd (tempdir_cleanup h tmp left)
            \<and> (case fst (tempdir_cleanup h tmp left) of
                  Some e \<Rightarrow> fst result = Inl e
                | None \<Rightarrow> (\<forall>p. inside tmp p \<longrightarrow> \<not> path_exists (fsys (snd result)) p))
            \<and> (fst result = Inr returned \<longrightarrow>
                 (\<exists>bytes. files left path = Some bytes \<and> valid_utf8 bytes
                    \<and> returned = universal_newlines bytes
                    \<and> (CHR 0x0D \<notin> set bytes \<longrightarrow> returned = bytes)))))"
proof (cases "mkdtemp h (fsys w)")
  case (Inl e)
  then show ?thesis
    by (simp add: json_report_scan_no_tempdir)
next
  case (Inr tmp)
  let ?path = "os_path_join tmp ''report.json''"
  let ?w1 = "w\<lparr>fsys := (fsys w)\<lparr>dirs := insert tmp (dirs (fsys w))\<rparr>\<rparr>"
  let ?block = "json_report_block h ?path url extensions threads show_errors ?w1"
  let ?left = "snd (exec h
      (S ''dirsearch'' # json_report_scan_args ?path url extensions threads show_errors)
      ((fsys w)\<lparr>dirs := insert tmp (dirs (fsys w))\<rparr>))"
  let ?result = "json_report_scan h url extensions threads show_errors w"
  note u = json_report_scan_unfold [OF Inr, of url extensions threads show_errors]
  have left: "fsys (snd ?block) = ?left"
    by (simp add: json_report_block_fsys)
  have after: "fsys (snd ?result) = snd (tempdir_cleanup h tmp ?left)"
    by (rule json_report_scan_fsys [OF Inr])
  have res: "fst ?result = (case fst (tempdir_cleanup h tmp ?left) of
                              None \<Rightarrow> fst ?block | Some e \<Rightarrow> Inl e)"
    by (simp add: u tempdir_exit_result left)
  have cleanup: "case fst (tempdir_cleanup h tmp ?left) of
                  Some e \<Rightarrow> fst ?result = Inl e
                | None \<Rightarrow> (\<forall>p. inside tmp p \<longrightarrow> \<not> path_exists (fsys (snd ?result)) p)"
  proof (cases "fst (tempdir_cleanup h tmp ?left)")
    case None
    then show ?thesis
      by (simp add: after tempdir_cleanup_done rmtree_removes)
  next
    case (Some e)
    then show ?thesis
      by (simp add: res)
  qed
  have content: "fst ?result = Inr returned \<longrightarrow>
                 (\<exists>bytes. files ?left ?path = Some bytes \<and> valid_utf8 bytes
                    \<and> returned = universal_newlines bytes
                    \<and> (CHR 0x0D \<notin> set bytes \<longrightarrow> returned = bytes))"
  proof
    assume r: "fst ?result = Inr returned"
    then have "fst ?block = Inr returned"
      using res by (cases "fst (tempdir_cleanup h tmp ?left)") auto
    from json_report_block_Inr [OF this]
    obtain bytes where "files ?left ?path = Some bytes" "valid_utf8 bytes"
        "returned = universal_newlines bytes"
      by auto
    then show "\<exists>bytes. files ?left ?path = Some bytes \<and> valid_utf8 bytes
                    \<and> returned = universal_newlines bytes
                    \<and> (CHR 0x0D \<notin> set bytes \<longrightarrow> returned = bytes)"
      using universal_newlines_without_cr by auto
  qed
  show ?thesis
    using inside_report_path [of tmp] after cleanup content
    by (simp add: Inr Let_def)
qed

lemma report_path_example: "os_path_join ''/tmp/t'' ''report.json'' = ''/tmp/t/report.json''"
  by (simp add: os_path_join_def suffix_to_prefix)

lemma inside_example:
  "inside ''/tmp/t'' ''/tmp/t/report.json''" "inside ''/tmp/t'' ''/tmp/t''"
  using inside_report_path [of "''/tmp/t''"] by (simp_all add: report_path_example inside_def)

lemma decode_example:
  "decode_text ''[200, 301]'' = Inr ''[200, 301]''"
  "decode_text (''a'' @ [CHR 0x0D, CHR 0x0A] @ ''b'') = Inr (''a'' @ [CHR 0x0A] @ ''b'')"
  by (simp_all add: decode_text_def byte_def between_def)

theorem json_report_scan_effects_witness:
  "fst (json_report_scan
          (writing_host (exit_ok ''out'') ''/tmp/t/report.json'' ''[200, 301]'' ''/tmp/t'')
          ''http://h/'' Default Default Default empty_world) = Inr ''[200, 301]''
   \<and> \<not> path_exists (fsys (snd (json_report_scan
          (writing_host (exit_ok ''out'') ''/tmp/t/report.json'' ''[200, 301]'' ''/tmp/t'')
          ''http://h/'' Default Default Default empty_world))) ''/tmp/t/report.json''
   \<and> \<not> path_exists (fsys (snd (json_report_scan
          (writing_host (exit_ok ''out'') ''/tmp/t/report.json'' ''[200, 301]'' ''/tmp/t'')
          ''http://h/'' Default Default Default empty_world))) ''/tmp/t''
   \<and> fst (json_report_scan (quiet_host (exit_failed 2 [] ''err'') ''/tmp/t'')
          ''http://h/'' Default Default Default empty_world)
       = Inl (RuntimeError (''dirsearch exited with 2:'' @ [CHR 0x0A] @ ''err''))
   \<and> \<not> path_exists (fsys (snd (json_report_scan (quiet_host (exit_failed 2 [] ''err'') ''/tmp/t'')
          ''http://h/'' Default Default Default empty_world))) ''/tmp/t''
   \<and> fst (json_report_scan (quiet_host (exit_ok ''out'') ''/tmp/t'')
          ''http://h/'' Default Default Default empty_world)
       = Inl (FileNotFoundError ''/tmp/t/report.json'')
   \<and> \<not> path_exists (fsys (snd (json_report_scan (quiet_host (exit_ok ''out'') ''/tmp/t'')
          ''http://h/'' Default Default Default empty_world))) ''/tmp/t''
   \<and> fst (json_report_scan (replacing_host (exit_ok ''out'') ''/tmp/t'')
          ''http://h/'' Default Default Default empty_world)
       = Inl (NotADirectoryError ''/tmp/t'')"
proof -
  let ?hw = "writing_host (exit_ok ''out'') ''/tmp/t/report.json'' ''[200, 301]'' ''/tmp/t''"
  let ?hf = "quiet_host (exit_failed 2 [] ''err'') ''/tmp/t''"
  let ?hq = "quiet_host (exit_ok ''out'') ''/tmp/t''"
  let ?hr = "replacing_host (exit_ok ''out'') ''/tmp/t''"
  have mw: "mkdtemp ?hw (fsys empty_world) = Inr ''/tmp/t''"
    by (simp add: writing_host_def)
  have mf: "mkdtemp ?hf (fsys empty_world) = Inr ''/tmp/t''"
    by (simp add: quiet_host_def)
  have mq: "mkdtemp ?hq (fsys empty_world) = Inr ''/tmp/t''"
    by (simp add: quiet_host_def)
  have mr: "mkdtemp ?hr (fsys empty_world) = Inr ''/tmp/t''"
    by (simp add: replacing_host_def)
  have two: "str_int 2 = ''2''"
    by (simp add: str_int_def str_nat.simps digit_char_def)
  have rw: "fst (json_report_scan ?hw ''http://h/'' Default Default Default empty_world)
            = Inr ''[200, 301]''"
    unfolding json_report_scan_unfold [OF mw]
    by (simp add: report_path_example tempdir_exit_def tempdir_cleanup_def json_report_block_def
        run_dirsearch_def subprocess_run_def writing_host_def exit_ok_def empty_world_def
        read_text_def decode_example)
  have rf: "fst (json_report_scan ?hf ''http://h/'' Default Default Default empty_world)
            = Inl (RuntimeError (''dirsearch exited with 2:'' @ [CHR 0x0A] @ ''err''))"
    unfolding json_report_scan_unfold [OF mf]
    by (simp add: report_path_example tempdir_exit_def tempdir_cleanup_def json_report_block_def
        run_dirsearch_def subprocess_run_def quiet_host_def exit_failed_def empty_world_def two)
  have rq: "fst (json_report_scan ?hq ''http://h/'' Default Default Default empty_world)
            = Inl (FileNotFoundError ''/tmp/t/report.json'')"
    unfolding json_report_scan_unfold [OF mq]
    by (simp add: report_path_example tempdir_exit_def tempdir_cleanup_def json_report_block_def
        run_dirsearch_def subprocess_run_def quiet_host_def exit_ok_def empty_world_def
        read_text_def)
  have rr: "fst (json_report_scan ?hr ''http://h/'' Default Default Default empty_world)
            = Inl (NotADirectoryError ''/tmp/t'')"
    unfolding json_report_scan_unfold [OF mr]
    by (simp add: report_path_example tempdir_exit_def tempdir_cleanup_def json_report_block_def
        run_dirsearch_def subprocess_run_def replacing_host_def exit_ok_def empty_world_def
        read_text_def)
  have cw: "fst (tempdir_cleanup ?hw ''/tmp/t'' (snd (exec ?hw
      (S ''dirsearch'' # json_report_scan_args ''/tmp/t/report.json'' ''http://h/''
                           Default Default Default)
      ((fsys empty_world)\<lparr>dirs := insert ''/tmp/t'' (dirs (fsys empty_world))\<rparr>)))) = None"
    by (simp add: tempdir_cleanup_def writing_host_def)
  have cf: "fst (tempdir_cleanup ?hf ''/tmp/t'' (snd (exec ?hf
      (S ''dirsearch'' # json_report_scan_args ''/tmp/t/report.json'' ''http://h/''
                           Default Default Default)
      ((fsys empty_world)\<lparr>dirs := insert ''/tmp/t'' (dirs (fsys empty_world))\<rparr>)))) = None"
    by (simp add: tempdir_cleanup_def quiet_host_def)
  have cq: "fst (tempdir_cleanup ?hq ''/tmp/t'' (snd (exec ?hq
      (S ''dirsearch'' # json_report_scan_args ''/tmp/t/report.json'' ''http://h/''
                           Default Default Default)
      ((fsys empty_world)\<lparr>dirs := insert ''/tmp/t'' (dirs (fsys empty_world))\<rparr>)))) = None"
    by (simp add: tempdir_cleanup_def quiet_host_def)
  have gw: "\<forall>p. inside ''/tmp/t'' p \<longrightarrow> \<not> path_exists (fsys (snd (json_report_scan ?hw
              ''http://h/'' Default Default Default empty_world))) p"
    using json_report_scan_effects [where h = "?hw" and w = empty_world
        and url = "''http://h/''" and extensions = Default and threads = Default
        and show_errors = Default and returned = "''[200, 301]''"] cw
    by (auto simp: mw Let_def report_path_example)
  have gf: "\<forall>p. inside ''/tmp/t'' p \<longrightarrow> \<not> path_exists (fsys (snd (json_report_scan ?hf
              ''http://h/'' Default Default Default empty_world))) p"
    using json_report_scan_effects [where h = "?hf" and w = empty_world
        and url = "''http://h/''" and extensions = Default and threads = Default
        and show_errors = Default and returned = "''[200, 301]''"] cf
    by (auto simp: mf Let_def report_path_example)
  have gq: "\<forall>p. inside ''/tmp/t'' p \<longrightarrow> \<not> path_exists (fsys (snd (json_report_scan ?hq
              ''http://h/'' Default Default Default empty_world))) p"
    using json_report_scan_effects [where h = "?hq" and w = empty_world
        and url = "''http://h/''" and extensions = Default and threads = Default
        and show_errors = Default and returned = "''[200, 301]''"] cq
    by (auto simp: mq Let_def report_path_example)
  from rw rf rq rr gw gf gq inside_example show ?thesis
    by blast
qed

text \<open>
  The claim as stated fails in both halves. A report written with \<^verbatim>\<open>\r\n\<close> line ends is
  returned with \<^verbatim>\<open>\n\<close> line ends, not byte for byte. And when the external process has
  put a regular file in the place of the temporary directory, the cleanup raises
  \<^verbatim>\<open>NotADirectoryError\<close> and the path still exists after the call.
\<close>

theorem json_report_scan_counterexample:
  "fst (json_report_scan
          (writing_host (exit_ok ''out'') ''/tmp/t/report.json''
             (''a'' @ [CHR 0x0D, CHR 0x0A] @ ''b'') ''/tmp/t'')
          ''http://h/'' Default Default Default empty_world)
     = Inr (''a'' @ [CHR 0x0A] @ ''b'')
   \<and> ''a'' @ [CHR 0x0A] @ ''b'' \<noteq> ''a'' @ [CHR 0x0D, CHR 0x0A] @ ''b''
   \<and> fst (json_report_scan (replacing_host (exit_ok ''out'') ''/tmp/t'')
          ''http://h/'' Default Default Default empty_world)
     = Inl (NotADirectoryError ''/tmp/t'')
   \<and> path_exists (fsys (snd (json_report_scan (replacing_host (exit_ok ''out'') ''/tmp/t'')
          ''http://h/'' Default Default Default empty_world))) ''/tmp/t''"
proof -
  let ?hc = "writing_host (exit_ok ''out'') ''/tmp/t/report.json''
               (''a'' @ [CHR 0x0D, CHR 0x0A] @ ''b'') ''/tmp/t''"
  let ?hr = "replacing_host (exit_ok ''out'') ''/tmp/t''"
  have mc: "mkdtemp ?hc (fsys empty_world) = Inr ''/tmp/t''"
    by (simp add: writing_host_def)
  have mr: "mkdtemp ?hr (fsys empty_world) = Inr ''/tmp/t''"
    by (simp add: replacing_host_def)
  have rc: "fst (json_report_scan ?hc ''http://h/'' Default Default Default empty_world)
            = Inr (''a'' @ [CHR 0x0A] @ ''b'')"
    unfolding json_report_scan_unfold [OF mc]
    using decode_example(2)
    by (simp add: report_path_example tempdir_exit_def tempdir_cleanup_def json_report_block_def
        run_dirsearch_def subprocess_run_def writing_host_def exit_ok_def empty_world_def
        read_text_def)
  have rr: "fst (json_report_scan ?hr ''http://h/'' Default Default Default empty_world)
            = Inl (NotADirectoryError ''/tmp/t'')"
    unfolding json_report_scan_unfold [OF mr]
    by (simp add: report_path_example tempdir_exit_def tempdir_cleanup_def json_report_block_def
        run_dirsearch_def subprocess_run_def replacing_host_def exit_ok_def empty_world_def
        read_text_def)
  have pr: "path_exists (fsys (snd (json_report_scan ?hr ''http://h/'' Default Default Default
              empty_world))) ''/tmp/t''"
    unfolding json_report_scan_fsys [OF mr]
    by (simp add: tempdir_cleanup_def replacing_host_def path_exists_def)
  from rc rr pr show ?thesis
    by simp
qed

section \<open>Determinism of the argument lists\<close>

lemma new_runs_run_dirsearch:
  "new_runs w (snd (run_dirsearch h args w)) = [S ''dirsearch'' # args]"
  by (simp add: new_runs_def run_dirsearch_log)

lemma new_runs_run_nmap:
  "new_runs w (snd (run_nmap h args w)) = [S ''nmap'' # args]"
  by (simp add: new_runs_def run_nmap_log)

lemma run_nmap_fsys:
  "fsys (snd (run_nmap h args w)) = snd (exec h (S ''nmap'' # args) (fsys w))"
  by (auto simp: run_nmap_def subprocess_run_def split: prod.splits sum.splits)

lemma new_runs_dirsearch_custom_scan:
  "new_runs w (snd (dirsearch_custom_scan h url extra_args w))
   = (case dirsearch_custom_scan_args url extra_args of
        Inl e \<Rightarrow> [] | Inr args \<Rightarrow> [S ''dirsearch'' # args])"
  by (simp add: dirsearch_custom_scan_def new_runs_def run_dirsearch_log split: sum.splits)

lemma new_runs_nmap_custom_scan:
  "new_runs w (snd (nmap_custom_scan h target extra_args w))
   = (case nmap_custom_scan_args target extra_args of
        Inl e \<Rightarrow> [] | Inr args \<Rightarrow> [S ''nmap'' # args])"
  by (simp add: nmap_custom_scan_def new_runs_def run_nmap_log split: sum.splits)

lemma fsys_dirsearch_custom_scan:
  "fsys (snd (dirsearch_custom_scan h url extra_args w))
   = (case dirsearch_custom_scan_args url extra_args of
        Inl e \<Rightarrow> fsys w | Inr args \<Rightarrow> snd (exec h (S ''dirsearch'' # args) (fsys w)))"
  by (simp add: dirsearch_custom_scan_def run_dirsearch_fsys split: sum.splits)

lemma fsys_nmap_custom_scan:
  "fsys (snd (nmap_custom_scan h target extra_args w))
   = (case nmap_custom_scan_args target extra_args of
        Inl e \<Rightarrow> fsys w | Inr args \<Rightarrow> snd (exec h (S ''nmap'' # args) (fsys w)))"
  by (simp add: nmap_custom_scan_def run_nmap_fsys split: sum.splits)

lemma new_runs_json_report_scan:
  "new_runs w (snd (json_report_scan h url extensions threads show_errors w))
   = (case mkdtemp h (fsys w) of
        Inl e \<Rightarrow> []
      | Inr tmp \<Rightarrow>
          [S ''dirsearch'' # json_report_scan_args (os_path_join tmp ''report.json'')
                               url extensions threads show_errors])"
proof (cases "mkdtemp h (fsys w)")
  case (Inl e)
  then show ?thesis
    by (simp add: json_report_scan_no_tempdir new_runs_def)
next
  case (Inr tmp)
  then show ?thesis
    by (simp add: json_report_scan_unfold [OF Inr] tempdir_exit_run_log
        json_report_block_run_log new_runs_def)
qed

lemma json_report_scan_output_token:
  "suffix [S ''-o'', S report_path]
     (json_report_scan_args report_path url extensions threads show_errors)"
  by (simp add: json_report_scan_args_def suffix_def)

lemmas dirsearch_tool_defs =
  quick_scan_def recursive_scan_def deep_recursive_scan_def subdirs_scan_def
  wordlist_scan_def proxy_scan_def authenticated_scan_def

lemmas nmap_tool_defs =
  full_port_scan_def stealth_syn_scan_def tcp_connect_scan_def udp_scan_def
  os_detection_scan_def ping_sweep_def aggressive_scan_def


text \<open>
  C6 (as amended). For every tool of both providers except \<^verbatim>\<open>json_report_scan\<close>, the
  argument vectors handed to \<^verbatim>\<open>subprocess.run\<close> are the same in any two calls with the
  same parameter values, whatever the two hosts do and whatever the two worlds hold.
  For \<^verbatim>\<open>json_report_scan\<close> they are the same when the two calls are also given the same
  temporary directory: the list ends with \<^verbatim>\<open>-o\<close> and a path inside that directory.
  A tool changes nothing before the process starts: the file system after the call is the
  one the process made of the file system before the call. For \<^verbatim>\<open>json_report_scan\<close>
  the process starts in the file system before the call with the temporary directory
  added and nothing else, and the file system after the call is what the cleanup of that
  directory makes of the one the process left; if no temporary directory can be
  created, nothing is run and nothing changes.
\<close>

theorem argument_lists_deterministic:
  "(new_runs w1 (snd (quick_scan h1 url extensions threads show_errors w1))
       = new_runs w2 (snd (quick_scan h2 url extensions threads show_errors w2)))
   \<and> (new_runs w1 (snd (recursive_scan h1 url extensions max_depth threads show_errors w1))
       = new_runs w2 (snd (recursive_scan h2 url extensions max_depth threads show_errors w2)))
   \<and> (new_runs w1 (snd (deep_recursive_scan h1 url extensions threads show_errors w1))
       = new_runs w2 (snd (deep_recursive_scan h2 url extensions threads show_errors w2)))
   \<and> (new_runs w1 (snd (subdirs_scan h1 url subdirs extensions threads show_errors w1))
       = new_runs w2 (snd (subdirs_scan h2 url subdirs extensions threads show_errors w2)))
   \<and> (new_runs w1 (snd (wordlist_scan h1 url wordlists extensions threads show_errors w1))
       = new_runs w2 (snd (wordlist_scan h2 url wordlists extensions threads show_errors w2)))
   \<and> (new_runs w1 (snd (proxy_scan h1 url proxy extensions threads show_errors w1))
       = new_runs w2 (snd (proxy_scan h2 url proxy extensions threads show_errors w2)))
   \<and> (new_runs w1 (snd (authenticated_scan h1 url auth_cred auth_type extensions threads w1))
       = new_runs w2 (snd (authenticated_scan h2 url auth_cred auth_type extensions threads w2)))
   \<and> (new_runs w1 (snd (dirsearch_custom_scan h1 url extra_args w1))
     = new_runs w2 (snd (dirsearch_custom_scan h2 url extra_args w2)))
   \<and> (new_runs w1 (snd (full_port_scan h1 target timing w1))
       = new_runs w2 (snd (full_port_scan h2 target timing w2)))
   \<and> (new_runs w1 (snd (stealth_syn_scan h1 target ports timing w1))
       = new_runs w2 (snd (stealth_syn_scan h2 target ports timing w2)))
   \<and> (new_runs w1 (snd (tcp_connect_scan h1 target ports timing w1))
       = new_runs w2 (snd (tcp_connect_scan h2 target ports timing w2)))
   \<and> (new_runs w1 (snd (udp_scan h1 target ports timing w1))
       = new_runs w2 (snd (udp_scan h2 target ports timing w2)))
   \<and> (new_runs w1 (snd (os_detection_scan h1 target quick w1))
       = new_runs w2 (snd (os_detection_scan h2 target quick w2)))
   \<and> (new_runs w1 (snd (ping_sweep h1 network w1))
       = new_runs w2 (snd (ping_sweep h2 network w2)))
   \<and> (new_runs w1 (snd (aggressive_scan h1 target w1))
       = new_runs w2 (snd (aggressive_scan h2 target w2)))
   \<and> (new_runs w1 (snd (nmap_custom_scan h1 target extra_args w1))
     = new_runs w2 (snd (nmap_custom_scan h2 target extra_args w2)))
   \<and> (mkdtemp h1 (fsys w1) = mkdtemp h2 (fsys w2) \<longrightarrow>
      new_runs w1 (snd (json_report_scan h1 url extensions threads show_errors w1))
      = new_runs w2 (snd (json_report_scan h2 url extensions threads show_errors w2)))
   \<and> (mkdtemp h1 (fsys w1) = Inl e \<longrightarrow>
      json_report_scan h1 url extensions threads show_errors w1 = (Inl e, w1))
   \<and> (mkdtemp h1 (fsys w1) = Inr tmp \<longrightarrow>
      new_runs w1 (snd (json_report_scan h1 url extensions threads show_errors w1))
      = [S ''dirsearch'' # json_report_scan_args (os_path_join tmp ''report.json'')
                             url extensions threads show_errors]
      \<and> suffix [S ''-o'', S (os_path_join tmp ''report.json'')]
            (json_report_scan_args (os_path_join tmp ''report.json'')
               url extensions threads show_errors)
      \<and> inside tmp (os_path_join tmp ''report.json'')
      \<and> fsys (snd (json_report_scan h1 url extensions threads show_errors w1))
        = snd (tempdir_cleanup h1 tmp
            (snd (exec h1
               (S ''dirsearch'' # json_report_scan_args (os_path_join tmp ''report.json'')
                                    url extensions threads show_errors)
               ((fsys w1)\<lparr>dirs := insert tmp (dirs (fsys w1))\<rparr>)))))
   \<and> (fsys (snd (quick_scan h1 url extensions threads show_errors w1))
       = snd (exec h1 (S ''dirsearch'' # quick_scan_args url extensions threads show_errors) (fsys w1)))
   \<and> (fsys (snd (recursive_scan h1 url extensions max_depth threads show_errors w1))
       = snd (exec h1 (S ''dirsearch'' # recursive_scan_args url extensions max_depth threads show_errors) (fsys w1)))
   \<and> (fsys (snd (deep_recursive_scan h1 url extensions threads show_errors w1))
       = snd (exec h1 (S ''dirsearch'' # deep_recursive_scan_args url extensions threads show_errors) (fsys w1)))
   \<and> (fsys (snd (subdirs_scan h1 url subdirs extensions threads show_errors w1))
       = snd (exec h1 (S ''dirsearch'' # subdirs_scan_args url subdirs extensions threads show_errors) (fsys w1)))
   \<and> (fsys (snd (wordlist_scan h1 url wordlists extensions threads show_errors w1))
       = snd (exec h1 (S ''dirsearch'' # wordlist_scan_args url wordlists extensions threads show_errors) (fsys w1)))
   \<and> (fsys (snd (proxy_scan h1 url proxy extensions threads show_errors w1))
       = snd (exec h1 (S ''dirsearch'' # proxy_scan_args url proxy extensions threads show_errors) (fsys w1)))
   \<and> (fsys (snd (authenticated_scan h1 url auth_cred auth_type extensions threads w1))
       = snd (exec h1 (S ''dirsearch'' # authenticated_scan_args url auth_cred auth_type extensions threads) (fsys w1)))
   \<and> (fsys (snd (full_port_scan h1 target timing w1))
       = snd (exec h1 (S ''nmap'' # full_port_scan_args target timing) (fsys w1)))
   \<and> (fsys (snd (stealth_syn_scan h1 target ports timing w1))
       = snd (exec h1 (S ''nmap'' # stealth_syn_scan_args target ports timing) (fsys w1)))
   \<and> (fsys (snd (tcp_connect_scan h1 target ports timing w1))
       = snd (exec h1 (S ''nmap'' # tcp_connect_scan_args target ports timing) (fsys w1)))
   \<and> (fsys (snd (udp_scan h1 target ports timing w1))
       = snd (exec h1 (S ''nmap'' # udp_scan_args target ports timing) (fsys w1)))
   \<and> (fsys (snd (os_detection_scan h1 target quick w1))
       = snd (exec h1 (S ''nmap'' # os_detection_scan_args target quick) (fsys w1)))
   \<and> (fsys (snd (ping_sweep h1 network w1))
       = snd (exec h1 (S ''nmap'' # ping_sweep_args network) (fsys w1)))
   \<and> (fsys (snd (aggressive_scan h1 target w1))
       = snd (exec h1 (S ''nmap'' # aggressive_scan_args target) (fsys w1)))
   \<and> (shlex_split extra_args = Inr tokens \<longrightarrow>
      fsys (snd (dirsearch_custom_scan h1 url extra_args w1))
      = snd (exec h1 (S ''dirsearch'' # [S ''-q'', S ''-t'', S ''20'', S ''-u'', S url] @ map S tokens) (fsys w1))
      \<and> fsys (snd (nmap_custom_scan h1 target extra_args w1))
      = snd (exec h1 (S ''nmap'' # [S ''-Pn''] @ map S tokens @ [S target]) (fsys w1)))"
  by (simp add: dirsearch_tool_defs nmap_tool_defs new_runs_run_dirsearch new_runs_run_nmap
      new_runs_dirsearch_custom_scan new_runs_nmap_custom_scan new_runs_json_report_scan
      run_dirsearch_fsys run_nmap_fsys fsys_dirsearch_custom_scan fsys_nmap_custom_scan
      dirsearch_custom_scan_args_Inr nmap_custom_scan_args_Inr
      json_report_scan_no_tempdir json_report_scan_fsys json_report_scan_output_token
      inside_report_path)


theorem argument_lists_deterministic_witness:
  "mkdtemp (quiet_host (exit_ok ''out'') ''/tmp/t'') (fsys empty_world)
     = mkdtemp (quiet_host (exit_failed 1 [] ''no'') ''/tmp/t'')
         (fsys (empty_world\<lparr>run_log := [[S ''nmap'', S ''-V'']]\<rparr>))
   \<and> mkdtemp (quiet_host (exit_ok ''out'') ''/tmp/t'') (fsys empty_world) = Inr ''/tmp/t''
   \<and> new_runs empty_world
        (snd (quick_scan (quiet_host (exit_ok ''out'') ''/tmp/t'') ''http://h/''
                Default Default Default empty_world))
      = [map S [''dirsearch'', ''-q'', ''-t'', ''20'', ''--include-status'', ''200-399'',
                ''-u'', ''http://h/'', ''-e'', ''php,asp,aspx,jsp,html,js,txt'']]
   \<and> new_runs (empty_world\<lparr>run_log := [[S ''nmap'', S ''-V'']]\<rparr>)
        (snd (quick_scan (quiet_host (exit_failed 1 [] ''no'') ''/tmp/t'') ''http://h/''
                Default Default Default (empty_world\<lparr>run_log := [[S ''nmap'', S ''-V'']]\<rparr>)))
      = [map S [''dirsearch'', ''-q'', ''-t'', ''20'', ''--include-status'', ''200-399'',
                ''-u'', ''http://h/'', ''-e'', ''php,asp,aspx,jsp,html,js,txt'']]
   \<and> new_runs (empty_world\<lparr>run_log := [[S ''nmap'', S ''-V'']]\<rparr>)
        (snd (json_report_scan (quiet_host (exit_failed 1 [] ''no'') ''/tmp/t'') ''http://h/''
                Default Default Default (empty_world\<lparr>run_log := [[S ''nmap'', S ''-V'']]\<rparr>)))
      = new_runs empty_world
        (snd (json_report_scan (quiet_host (exit_ok ''out'') ''/tmp/t'') ''http://h/''
                Default Default Default empty_world))
   \<and> new_runs empty_world
        (snd (json_report_scan (quiet_host (exit_ok ''out'') ''/tmp/t'') ''http://h/''
                Default Default Default empty_world))
      = [map S [''dirsearch'', ''-q'', ''-t'', ''20'', ''--include-status'', ''200-399'',
                ''-u'', ''http://h/'', ''-e'', ''php,asp,aspx,jsp,html,js,txt'',
                ''--format'', ''json'', ''-o'', ''/tmp/t/report.json'']]
   \<and> inside ''/tmp/t'' ''/tmp/t/report.json''
   \<and> shlex_split ''-x php'' = Inr [''-x'', ''php'']
   \<and> fsys (snd (dirsearch_custom_scan (quiet_host (exit_ok ''out'') ''/tmp/t'') ''http://h/''
                   ''-x php'' empty_world))
      = fsys empty_world"
proof -
  let ?h1 = "quiet_host (exit_ok ''out'') ''/tmp/t''"
  let ?h2 = "quiet_host (exit_failed 1 [] ''no'') ''/tmp/t''"
  let ?w2 = "empty_world\<lparr>run_log := [[S ''nmap'', S ''-V'']]\<rparr>"
  have m: "mkdtemp ?h1 (fsys empty_world) = mkdtemp ?h2 (fsys ?w2)"
    by (simp add: quiet_host_def)
  have m1: "mkdtemp ?h1 (fsys empty_world) = Inr ''/tmp/t''"
    by (simp add: quiet_host_def)
  have t: "shlex_split ''-x php'' = Inr [''-x'', ''php'']"
    by (simp add: shlex_split_def whitespace_def quotes_def escape_def escapedquotes_def)
  have q: "new_runs empty_world
        (snd (quick_scan ?h1 ''http://h/'' Default Default Default empty_world))
      = [map S [''dirsearch'', ''-q'', ''-t'', ''20'', ''--include-status'', ''200-399'',
                ''-u'', ''http://h/'', ''-e'', ''php,asp,aspx,jsp,html,js,txt'']]"
    by (simp add: quick_scan_def new_runs_run_dirsearch quick_scan_args_def base_args_def
        twenty common_extensions_def)
  have a: "json_report_scan_args ''/tmp/t/report.json'' ''http://h/'' Default Default Default
      = map S [''-q'', ''-t'', ''20'', ''--include-status'', ''200-399'',
                ''-u'', ''http://h/'', ''-e'', ''php,asp,aspx,jsp,html,js,txt'',
                ''--format'', ''json'', ''-o'', ''/tmp/t/report.json'']"
    by (simp add: json_report_scan_args_def base_args_def twenty common_extensions_def)
  have e: "snd (exec ?h1 (S ''dirsearch'' # [S ''-q'', S ''-t'', S ''20'', S ''-u'', S ''http://h/'']
                   @ map S [''-x'', ''php'']) (fsys empty_world)) = fsys empty_world"
    by (simp add: quiet_host_def)
  note inst = argument_lists_deterministic [of empty_world ?h1 "''http://h/''" Default Default
        Default ?w2 ?h2 Default "''sub''" "''list''" "''proxy''" "''cred''" Default "''-x php''"
        "''10.0.0.5''" Default Default Default "''10.0.0.0/24''" "OSError []" "''/tmp/t''"
        "[''-x'', ''php'']"]
  have q2: "new_runs ?w2 (snd (quick_scan ?h2 ''http://h/'' Default Default Default ?w2))
      = [map S [''dirsearch'', ''-q'', ''-t'', ''20'', ''--include-status'', ''200-399'',
                ''-u'', ''http://h/'', ''-e'', ''php,asp,aspx,jsp,html,js,txt'']]"
    using inst q by simp
  have j: "new_runs ?w2 (snd (json_report_scan ?h2 ''http://h/'' Default Default Default ?w2))
      = new_runs empty_world
          (snd (json_report_scan ?h1 ''http://h/'' Default Default Default empty_world))"
    using inst m by simp
  have j1: "new_runs empty_world
          (snd (json_report_scan ?h1 ''http://h/'' Default Default Default empty_world))
      = [map S [''dirsearch'', ''-q'', ''-t'', ''20'', ''--include-status'', ''200-399'',
                ''-u'', ''http://h/'', ''-e'', ''php,asp,aspx,jsp,html,js,txt'',
                ''--format'', ''json'', ''-o'', ''/tmp/t/report.json'']]"
    using inst m1 by (simp add: report_path_example a)
  have c: "fsys (snd (dirsearch_custom_scan ?h1 ''http://h/'' ''-x php'' empty_world))
      = fsys empty_world"
    using inst t e by simp
  from m m1 q q2 j j1 inside_example(1) t c show ?thesis
    by blast
qed

text \<open>
  The claim as stated (identical parameter values give identical token sequences, for
  every tool) fails for \<^verbatim>\<open>json_report_scan\<close>: the token after \<^verbatim>\<open>-o\<close> is a path
  inside the temporary directory, and two calls with the same parameters that are given
  different temporary directories hand different lists to \<^verbatim>\<open>subprocess.run\<close>.
\<close>

theorem json_report_scan_tokens_counterexample:
  "new_runs empty_world
     (snd (json_report_scan (quiet_host (exit_ok ''out'') ''/tmp/a'') ''http://h/''
             Default Default Default empty_world))
   \<noteq> new_runs empty_world
     (snd (json_report_scan (quiet_host (exit_ok ''out'') ''/tmp/b'') ''http://h/''
             Default Default Default empty_world))"
  by (simp add: new_runs_json_report_scan quiet_host_def json_report_scan_args_def
      os_path_join_def suffix_to_prefix)

section \<open>The status filter and the concurrency flag of the dirsearch tools\<close>

lemmas dirsearch_args_defs =
  quick_scan_args_def recursive_scan_args_def deep_recursive_scan_args_def
  subdirs_scan_args_def wordlist_scan_args_def json_report_scan_args_def
  proxy_scan_args_def authenticated_scan_args_def

lemma base_args_cases:
  "base_args (Given None) (Given e) = S ''-q'' # (if e then [] else status_filter)"
  "base_args (Given (Some 0)) (Given e) = S ''-q'' # (if e then [] else status_filter)"
  "n \<noteq> 0 \<Longrightarrow> base_args (Given (Some n)) (Given e)
     = S ''-q'' # S ''-t'' # S (str_int n) # (if e then [] else status_filter)"
  by (simp_all add: base_args_def status_filter_def)

lemma pair_in_list:
  "sublist [a, b] (x # y # zs) = ((a = x \<and> b = y) \<or> sublist [a, b] (y # zs))"
  "sublist [a, b] [x] = False"
  "sublist [a, b] [] = False"
  by (simp_all add: sublist_Cons_right)


lemma status_filter_from_base:
  "sublist status_filter (base_args (Given thr) (Given e) @ S ''-u'' # S url # rest)
   = (\<not> e \<or> sublist status_filter (S url # rest))"
proof (cases thr)
  case None
  then show ?thesis
    by (auto simp: base_args_cases status_filter_def pair_in_list)
next
  case (Some n)
  then show ?thesis
    by (cases "n = 0") (auto simp: base_args_cases status_filter_def pair_in_list)
qed

text \<open>
  C2 (as amended). For \<^verbatim>\<open>quick_scan\<close>, \<^verbatim>\<open>recursive_scan\<close>,
  \<^verbatim>\<open>deep_recursive_scan\<close>, \<^verbatim>\<open>subdirs_scan\<close>, \<^verbatim>\<open>wordlist_scan\<close>,
  \<^verbatim>\<open>json_report_scan\<close> and \<^verbatim>\<open>proxy_scan\<close> the tokens \<^verbatim>\<open>--include-status\<close>,
  \<^verbatim>\<open>200-399\<close> stand next to each other in the built list exactly when
  \<^verbatim>\<open>show_errors\<close> is false. \<^verbatim>\<open>authenticated_scan\<close> and \<^verbatim>\<open>custom_scan\<close> always
  build their base flags with all codes included: the list of \<^verbatim>\<open>authenticated_scan\<close>
  never holds the filter, and the list of \<^verbatim>\<open>custom_scan\<close> holds it only where the
  caller's own url and extra tokens spell it out.
\<close>

theorem status_filter_policy:
  "(sublist status_filter (quick_scan_args url extensions threads show_errors)
     = (\<not> param_or False show_errors))
   \<and> (sublist status_filter (recursive_scan_args url extensions max_depth threads show_errors)
     = (\<not> param_or False show_errors))
   \<and> (sublist status_filter (deep_recursive_scan_args url extensions threads show_errors)
     = (\<not> param_or False show_errors))
   \<and> (sublist status_filter (subdirs_scan_args url subdirs extensions threads show_errors)
     = (\<not> param_or False show_errors))
   \<and> (sublist status_filter (wordlist_scan_args url wordlists extensions threads show_errors)
     = (\<not> param_or False show_errors))
   \<and> (sublist status_filter (json_report_scan_args report_path url extensions threads show_errors)
     = (\<not> param_or False show_errors))
   \<and> (sublist status_filter (proxy_scan_args url proxy extensions threads show_errors)
     = (\<not> param_or False show_errors))
   \<and> \<not> sublist status_filter (authenticated_scan_args url auth_cred auth_type extensions threads)
   \<and> (shlex_split extra_args = Inr tokens \<longrightarrow>
      dirsearch_custom_scan_args url extra_args
        = Inr ([S ''-q'', S ''-t'', S ''20'', S ''-u'', S url] @ map S tokens)
      \<and> sublist status_filter ([S ''-q'', S ''-t'', S ''20'', S ''-u'', S url] @ map S tokens)
        = sublist status_filter (S url # map S tokens))"
proof -
  have custom: "sublist status_filter ([S ''-q'', S ''-t'', S ''20'', S ''-u'', S url] @ map S tokens)
        = sublist status_filter (S url # map S tokens)"
    by (simp add: status_filter_def pair_in_list)
  show ?thesis
    using custom
    by (simp add: dirsearch_args_defs status_filter_from_base dirsearch_custom_scan_args_Inr)
      (simp add: status_filter_def pair_in_list split: option.splits)
qed


theorem status_filter_policy_witness:
  "sublist status_filter (quick_scan_args ''http://h/'' Default Default Default)
   \<and> \<not> sublist status_filter (quick_scan_args ''http://h/'' Default Default (Given True))
   \<and> \<not> sublist status_filter
         (authenticated_scan_args ''http://h/'' ''user:pw'' Default Default Default)
   \<and> shlex_split ''--include-status 200-399'' = Inr [''--include-status'', ''200-399'']
   \<and> dirsearch_custom_scan_args ''http://h/'' ''--include-status 200-399''
       = Inr (map S [''-q'', ''-t'', ''20'', ''-u'', ''http://h/'', ''--include-status'', ''200-399''])
   \<and> sublist status_filter
         (map S [''-q'', ''-t'', ''20'', ''-u'', ''http://h/'', ''--include-status'', ''200-399''])"
proof -
  have t: "shlex_split ''--include-status 200-399'' = Inr [''--include-status'', ''200-399'']"
    by (simp add: shlex_split_def whitespace_def quotes_def escape_def escapedquotes_def)
  have own: "sublist status_filter (S ''http://h/'' # map S [''--include-status'', ''200-399''])"
    by (simp add: status_filter_def pair_in_list)
  show ?thesis
    using t own
      status_filter_policy [where url = "''http://h/''" and extensions = Default
        and threads = Default and show_errors = Default and auth_cred = "''user:pw''"
        and auth_type = Default and extra_args = "''--include-status 200-399''"
        and tokens = "[''--include-status'', ''200-399'']"]
      status_filter_policy [where url = "''http://h/''" and extensions = Default
        and threads = Default and show_errors = "Given True" and auth_cred = "''user:pw''"
        and auth_type = Default and extra_args = "''--include-status 200-399''"
        and tokens = "[''--include-status'', ''200-399'']"]
    by simp
qed

text \<open>
  The claim as stated (in every dirsearch tool the filter appears unless the caller
  explicitly asks for all codes) fails for \<^verbatim>\<open>authenticated_scan\<close> and
  \<^verbatim>\<open>custom_scan\<close>: called with nothing that asks for all codes, they build lists
  without the filter.
\<close>

theorem status_filter_counterexample:
  "\<not> sublist status_filter
        (authenticated_scan_args ''http://h/'' ''user:pw'' Default Default Default)
   \<and> dirsearch_custom_scan_args ''http://h/'' ''-x php''
       = Inr (map S [''-q'', ''-t'', ''20'', ''-u'', ''http://h/'', ''-x'', ''php''])
   \<and> \<not> sublist status_filter
         (map S [''-q'', ''-t'', ''20'', ''-u'', ''http://h/'', ''-x'', ''php''])"
proof -
  have t: "shlex_split ''-x php'' = Inr [''-x'', ''php'']"
    by (simp add: shlex_split_def whitespace_def quotes_def escape_def escapedquotes_def)
  show ?thesis
    using dirsearch_custom_scan_args_Inr [OF t, of "''http://h/''"]
    by (simp add: authenticated_scan_args_def base_args_def twenty common_extensions_def
        status_filter_def pair_in_list)
qed






end
